theory Spec2Isabelle
  imports Main
begin

section \<open>Python values and exceptions\<close>

text \<open>
  The scalars a row of a parsed chunk can hold. A float is represented by its \<open>repr\<close>
  (Python's \<open>repr\<close> of a float is canonical, so it identifies the float): the floats
  that compare equal to \<open>0.0\<close> are exactly \<open>0.0\<close> and \<open>-0.0\<close>. Strings are lists
  of characters; the model covers the one-byte characters of \<open>char\<close>.
\<close>

datatype pyval = PyNone | PyBool bool | PyInt int | PyFloat string | PyStr string

datatype exc_class =
  ValueError | TypeError | KeyError | AttributeError | InvalidOperation
  | JSONDecodeError | ParseError | CalledProcessError | HTTPException | PlainException

text \<open>An exception object: its class and the text \<open>str(e)\<close> gives.\<close>

datatype pyexc = PyExc exc_class string

fun exc_str :: "pyexc \<Rightarrow> string" where
  "exc_str (PyExc c m) = m"

text \<open>
  \<open>isinstance_exc e C\<close>: would \<open>except C\<close> catch \<open>e\<close>. The part of the class
  hierarchy the code meets: \<open>json.JSONDecodeError\<close> derives from \<open>ValueError\<close>,
  \<open>decimal.InvalidOperation\<close> from \<open>ArithmeticError\<close> (neither a \<open>ValueError\<close> nor
  a \<open>TypeError\<close>), and every class here derives from \<open>Exception\<close>, written
  \<open>PlainException\<close>.
\<close>

fun isinstance_exc :: "pyexc \<Rightarrow> exc_class \<Rightarrow> bool" where
  "isinstance_exc (PyExc c m) PlainException = True"
| "isinstance_exc (PyExc JSONDecodeError m) ValueError = True"
| "isinstance_exc (PyExc c m) d = (c = d)"

subsection \<open>\<open>str\<close> of a scalar\<close>

definition digit_char :: "nat \<Rightarrow> char" where
  "digit_char d = char_of (48 + d)"

fun str_of_nat :: "nat \<Rightarrow> string" where
  "str_of_nat n = (if n < 10 then [digit_char n] else str_of_nat (n div 10) @ [digit_char (n mod 10)])"

declare str_of_nat.simps [simp del]

definition str_of_int :: "int \<Rightarrow> string" where
  "str_of_int i = (if i < 0 then CHR ''-'' # str_of_nat (nat (- i)) else str_of_nat (nat i))"

fun str :: "pyval \<Rightarrow> string" where
  "str PyNone = ''None''"
| "str (PyBool b) = (if b then ''True'' else ''False'')"
| "str (PyInt i) = str_of_int i"
| "str (PyFloat r) = r"
| "str (PyStr s) = s"

text \<open>\<open>isinstance(value, float) and value == 0.0\<close>.\<close>

fun is_float_zero :: "pyval \<Rightarrow> bool" where
  "is_float_zero (PyFloat r) = (r = ''0.0'' \<or> r = ''-0.0'')"
| "is_float_zero v = False"

section \<open>\<open>decimal.Decimal\<close> from a string\<close>

text \<open>
  A \<open>Decimal\<close> value: a finite number (sign, coefficient, exponent), an infinity, or a
  NaN (sign, signalling, payload). \<open>Decimal('0')\<close> is \<open>Dec False 0 0\<close> and
  \<open>Decimal('0.0')\<close> is \<open>Dec False 0 (-1)\<close>: equal as numbers, distinct as values
  (\<open>str\<close> gives \<open>'0'\<close> and \<open>'0.0'\<close>).
\<close>

datatype decimal = Dec bool nat int | DecInf bool | DecNaN bool bool nat

text \<open>
  The constructor on a string follows the library's numeric-string syntax: the argument
  is stripped of surrounding whitespace, underscores are removed, and the rest must be
  an optional sign followed by digits with an optional fraction and exponent, or
  \<open>Inf\<close>/\<open>Infinity\<close>, or \<open>NaN\<close>/\<open>sNaN\<close> with optional digits, in any letter case.
  Anything else raises \<open>decimal.InvalidOperation\<close>.
\<close>

definition is_space :: "char \<Rightarrow> bool" where
  "is_space c = (let n = (of_char c :: nat) in (9 \<le> n \<and> n \<le> 13) \<or> (28 \<le> n \<and> n \<le> 32))"

definition is_digit :: "char \<Rightarrow> bool" where
  "is_digit c = (let n = (of_char c :: nat) in 48 \<le> n \<and> n \<le> 57)"

definition to_lower :: "char \<Rightarrow> char" where
  "to_lower c = (let n = (of_char c :: nat) in if 65 \<le> n \<and> n \<le> 90 then char_of (n + 32) else c)"

definition strip :: "string \<Rightarrow> string" where
  "strip s = rev (dropWhile is_space (rev (dropWhile is_space s)))"

definition nat_of_digits :: "string \<Rightarrow> nat" where
  "nat_of_digits ds = foldl (\<lambda>n c. 10 * n + (of_char c - 48)) 0 ds"

text \<open>The exponent after \<open>E\<close>: \<open>[-+]?\d+\<close>.\<close>

definition parse_exponent :: "string \<Rightarrow> int option" where
  "parse_exponent s =
     (let neg = (s \<noteq> [] \<and> hd s = CHR ''-'');
          ds = (if s \<noteq> [] \<and> (hd s = CHR ''-'' \<or> hd s = CHR ''+'') then tl s else s)
      in if ds \<noteq> [] \<and> list_all is_digit ds
         then Some (if neg then - int (nat_of_digits ds) else int (nat_of_digits ds))
         else None)"

text \<open>
  A number: it starts with a digit or with a point and a digit; integer part, optional
  fraction, optional exponent, and nothing after.
\<close>

definition parse_number :: "bool \<Rightarrow> string \<Rightarrow> decimal option" where
  "parse_number sign s =
     (let intpart = takeWhile is_digit s;
          r1 = dropWhile is_digit s;
          has_point = (r1 \<noteq> [] \<and> hd r1 = CHR ''.'');
          fracpart = (if has_point then takeWhile is_digit (tl r1) else []);
          r2 = (if has_point then dropWhile is_digit (tl r1) else r1);
          coeff = nat_of_digits (intpart @ fracpart)
      in if intpart = [] \<and> fracpart = [] then None
         else if r2 = [] then Some (Dec sign coeff (- int (length fracpart)))
         else if hd r2 = CHR ''e'' then
           (case parse_exponent (tl r2) of
              None \<Rightarrow> None
            | Some e \<Rightarrow> Some (Dec sign coeff (e - int (length fracpart))))
         else None)"

definition parse_nan :: "bool \<Rightarrow> string \<Rightarrow> decimal option" where
  "parse_nan sign s =
     (if take 3 s = ''nan'' \<and> list_all is_digit (drop 3 s)
        then Some (DecNaN sign False (nat_of_digits (drop 3 s)))
      else if take 4 s = ''snan'' \<and> list_all is_digit (drop 4 s)
        then Some (DecNaN sign True (nat_of_digits (drop 4 s)))
      else None)"

definition decimal_of_string :: "string \<Rightarrow> decimal option" where
  "decimal_of_string v =
     (let t = map to_lower (filter (\<lambda>c. c \<noteq> CHR ''_'') (strip v));
          signed = (t \<noteq> [] \<and> (hd t = CHR ''-'' \<or> hd t = CHR ''+''));
          sign = (t \<noteq> [] \<and> hd t = CHR ''-'');
          body = (if signed then tl t else t)
      in if body = ''inf'' \<or> body = ''infinity'' then Some (DecInf sign)
         else case parse_nan sign body of
                Some d \<Rightarrow> Some d
              | None \<Rightarrow> parse_number sign body)"

text \<open>\<open>Decimal(s)\<close> for a string \<open>s\<close>: the value, or \<open>InvalidOperation\<close> raised.\<close>

definition Decimal :: "string \<Rightarrow> pyexc + decimal" where
  "Decimal s =
     (case decimal_of_string s of
        None \<Rightarrow> Inl (PyExc InvalidOperation ''[<class 'decimal.ConversionSyntax'>]'')
      | Some d \<Rightarrow> Inr d)"

text \<open>Numeric equality of finite decimals, as \<open>==\<close> compares them.\<close>

fun dec_value_eq :: "decimal \<Rightarrow> decimal \<Rightarrow> bool" where
  "dec_value_eq (Dec s1 c1 e1) (Dec s2 c2 e2) =
     ((if s1 then - int c1 else int c1) * 10 ^ nat (e1 - min e1 e2)
      = (if s2 then - int c2 else int c2) * 10 ^ nat (e2 - min e1 e2))"
| "dec_value_eq (DecInf s1) (DecInf s2) = (s1 = s2)"
| "dec_value_eq d1 d2 = False"

section \<open>Decimal coercion\<close>

text \<open>
  \<open>XMLImportService._safe_decimal\<close> (xml_service.py). The result is the returned
  \<open>Decimal | None\<close>, or the exception that leaves the function: the handler catches
  \<open>ValueError\<close> and \<open>TypeError\<close> only.
\<close>

definition safe_decimal :: "pyval \<Rightarrow> pyexc + decimal option" where
  "safe_decimal v =
     (if v = PyNone then Inr None
      else if is_float_zero v then map_sum id Some (Decimal ''0'')
      else case Decimal (str v) of
             Inr d \<Rightarrow> Inr (Some d)
           | Inl e \<Rightarrow> if isinstance_exc e ValueError \<or> isinstance_exc e TypeError
                      then Inr None else Inl e)"

text \<open>The module-level \<open>_safe_decimal\<close> of process_upload_task.py: no zero case.\<close>

definition safe_decimal_task :: "pyval \<Rightarrow> pyexc + decimal option" where
  "safe_decimal_task v =
     (if v = PyNone then Inr None
      else case Decimal (str v) of
             Inr d \<Rightarrow> Inr (Some d)
           | Inl e \<Rightarrow> if isinstance_exc e ValueError \<or> isinstance_exc e TypeError
                      then Inr None else Inl e)"

section \<open>Chunks\<close>

text \<open>
  A chunk is a pandas \<open>DataFrame\<close>: its column names and its rows, a row being the
  association of column names with scalars (\<open>row.to_dict()\<close>). \<open>df.empty\<close> holds when
  either axis has length zero. \<open>row.get(key, default)\<close> gives the default only when
  the key is missing.
\<close>

type_synonym row = "(string \<times> pyval) list"

record dataframe =
  columns :: "string list"
  rows :: "row list"

definition df_empty :: "dataframe \<Rightarrow> bool" where
  "df_empty df = (columns df = [] \<or> rows df = [])"

definition row_get :: "row \<Rightarrow> string \<Rightarrow> pyval \<Rightarrow> pyval" where
  "row_get r k d = (case map_of r k of Some v \<Rightarrow> v | None \<Rightarrow> d)"

text \<open>\<open>XMLImportService._detect_dataframe_type\<close>.\<close>

definition detect_dataframe_type :: "dataframe \<Rightarrow> string" where
  "detect_dataframe_type df =
     (if df_empty df then ''unknown''
      else if {''sum'', ''average'', ''maximum'', ''minimum''} \<subseteq> set (columns df) then ''statistic''
      else if ''duration'' \<in> set (columns df) \<and> ''durationUnit'' \<in> set (columns df) then ''workout''
      else if ''value'' \<in> set (columns df) then ''record''
      else ''unknown'')"

section \<open>Entities and the libraries around them\<close>

datatype uuid = Uuid nat

datatype datetime = NaT | Timestamp int

record record_create =
  rc_user_id :: uuid
  rc_type :: string
  rc_sourceVersion :: string
  rc_sourceName :: string
  rc_deviceId :: string
  rc_startDate :: datetime
  rc_endDate :: datetime
  rc_creationDate :: datetime
  rc_unit :: string
  rc_value :: "decimal option"

record xml_workout_create =
  wc_user_id :: uuid
  wc_type :: string
  wc_duration :: "decimal option"
  wc_durationUnit :: string
  wc_sourceName :: string
  wc_startDate :: datetime
  wc_endDate :: datetime
  wc_creationDate :: datetime

record workout_statistic_create =
  sc_user_id :: uuid
  sc_type :: string
  sc_startDate :: datetime
  sc_endDate :: datetime
  sc_creationDate :: datetime
  sc_sum :: "decimal option"
  sc_average :: "decimal option"
  sc_maximum :: "decimal option"
  sc_minimum :: "decimal option"
  sc_unit :: string

datatype entity =
  RecordRow record_create
  | WorkoutRow xml_workout_create
  | StatisticRow workout_statistic_create

text \<open>
  Library calls whose code is not part of the repository are parameters of the model:
  \<open>uuid.UUID(s)\<close>; \<open>pandas.to_datetime(v)\<close> on a scalar; the check a pydantic model
  makes of its three date fields when they are given as pandas timestamps (the other
  fields of the create schemas are a UUID, plain strings without a length limit and an
  optional Decimal, and are given as such); and the validation of the three date fields
  when they are given as raw cells. Each returns its value or the exception it raises.
\<close>

record externals =
  ext_UUID :: "string \<Rightarrow> pyexc + uuid"
  ext_to_datetime :: "pyval \<Rightarrow> pyexc + datetime"
  ext_model_dates :: "datetime \<Rightarrow> datetime \<Rightarrow> datetime \<Rightarrow> pyexc option"
  ext_validate_dates :: "pyval \<Rightarrow> pyval \<Rightarrow> pyval \<Rightarrow> pyexc + (datetime \<times> datetime \<times> datetime)"

definition exc_bind :: "pyexc + 'a \<Rightarrow> ('a \<Rightarrow> pyexc + 'b) \<Rightarrow> pyexc + 'b" where
  "exc_bind m f = (case m of Inl e \<Rightarrow> Inl e | Inr x \<Rightarrow> f x)"

text \<open>
  Modelled from the spec: \<open>AppService.create\<close> and the repository behind it are not
  among the sources. A session is the list of rows written in its open transaction;
  each row is written individually and becomes visible in the store at commit.
\<close>

type_synonym session = "entity list"

definition service_create :: "session \<Rightarrow> entity \<Rightarrow> session" where
  "service_create db e = db @ [e]"

section \<open>The persister of the import service (xml_service.py)\<close>

text \<open>
  The constructor of a create schema on the fields of the dictionary: the dates are
  checked, the other fields already have their declared types.
\<close>

definition model_validate ::
  "externals \<Rightarrow> datetime \<Rightarrow> datetime \<Rightarrow> datetime \<Rightarrow> 'a \<Rightarrow> pyexc + 'a" where
  "model_validate ext sd ed cd x =
     (case ext_model_dates ext sd ed cd of Some e \<Rightarrow> Inl e | None \<Rightarrow> Inr x)"

text \<open>
  The dictionary literal of \<open>_process_records_df\<close>, evaluated in source order, then the
  \<open>RecordCreate\<close> built from it.
\<close>

definition record_data :: "externals \<Rightarrow> string \<Rightarrow> row \<Rightarrow> pyexc + record_create" where
  "record_data ext user_id r =
     exc_bind (ext_UUID ext user_id) (\<lambda>uid.
     exc_bind (ext_to_datetime ext (row_get r ''startDate'' PyNone)) (\<lambda>sd.
     exc_bind (ext_to_datetime ext (row_get r ''endDate'' PyNone)) (\<lambda>ed.
     exc_bind (ext_to_datetime ext (row_get r ''creationDate'' PyNone)) (\<lambda>cd.
     exc_bind (safe_decimal (row_get r ''value'' PyNone)) (\<lambda>v.
     model_validate ext sd ed cd \<lparr> rc_user_id = uid,
           rc_type = take 50 (str (row_get r ''type'' (PyStr []))),
           rc_sourceVersion = take 100 (str (row_get r ''sourceVersion'' (PyStr []))),
           rc_sourceName = take 100 (str (row_get r ''sourceName'' (PyStr []))),
           rc_deviceId = take 100 (str (row_get r ''device'' (PyStr []))),
           rc_startDate = sd, rc_endDate = ed, rc_creationDate = cd,
           rc_unit = take 10 (str (row_get r ''unit'' (PyStr []))),
           rc_value = v \<rparr>)))))"

definition workout_data :: "externals \<Rightarrow> string \<Rightarrow> row \<Rightarrow> pyexc + xml_workout_create" where
  "workout_data ext user_id r =
     exc_bind (ext_UUID ext user_id) (\<lambda>uid.
     exc_bind (safe_decimal (row_get r ''duration'' PyNone)) (\<lambda>d.
     exc_bind (ext_to_datetime ext (row_get r ''startDate'' PyNone)) (\<lambda>sd.
     exc_bind (ext_to_datetime ext (row_get r ''endDate'' PyNone)) (\<lambda>ed.
     exc_bind (ext_to_datetime ext (row_get r ''creationDate'' PyNone)) (\<lambda>cd.
     model_validate ext sd ed cd \<lparr> wc_user_id = uid,
           wc_type = take 50 (str (row_get r ''type'' (PyStr ''Unknown Workout''))),
           wc_duration = d,
           wc_durationUnit = take 10 (str (row_get r ''durationUnit'' (PyStr []))),
           wc_sourceName = take 100 (str (row_get r ''sourceName'' (PyStr []))),
           wc_startDate = sd, wc_endDate = ed, wc_creationDate = cd \<rparr>)))))"

definition stat_data :: "externals \<Rightarrow> string \<Rightarrow> row \<Rightarrow> pyexc + workout_statistic_create" where
  "stat_data ext user_id r =
     exc_bind (ext_UUID ext user_id) (\<lambda>uid.
     exc_bind (ext_to_datetime ext (row_get r ''startDate'' PyNone)) (\<lambda>sd.
     exc_bind (ext_to_datetime ext (row_get r ''endDate'' PyNone)) (\<lambda>ed.
     exc_bind (ext_to_datetime ext (row_get r ''creationDate'' PyNone)) (\<lambda>cd.
     exc_bind (safe_decimal (row_get r ''sum'' PyNone)) (\<lambda>s.
     exc_bind (safe_decimal (row_get r ''average'' PyNone)) (\<lambda>a.
     exc_bind (safe_decimal (row_get r ''maximum'' PyNone)) (\<lambda>mx.
     exc_bind (safe_decimal (row_get r ''minimum'' PyNone)) (\<lambda>mn.
     model_validate ext sd ed cd \<lparr> sc_user_id = uid,
           sc_type = take 50 (str (row_get r ''type'' (PyStr []))),
           sc_startDate = sd, sc_endDate = ed, sc_creationDate = cd,
           sc_sum = s, sc_average = a, sc_maximum = mx, sc_minimum = mn,
           sc_unit = take 10 (str (row_get r ''unit'' (PyStr []))) \<rparr>))))))))"

text \<open>
  The row loop of a \<open>_process_*_df\<close>: \<open>build\<close> makes the entity of a row; a row that
  raises is logged and re-raised, which ends the loop with the rows written so far still
  in the session. The count is \<open>created_count\<close>.
\<close>

fun process_rows ::
  "(row \<Rightarrow> pyexc + entity) \<Rightarrow> row list \<Rightarrow> session \<Rightarrow> nat \<Rightarrow> session \<times> (pyexc + nat)" where
  "process_rows build [] db created_count = (db, Inr created_count)"
| "process_rows build (r # rs) db created_count =
     (case build r of
        Inl e \<Rightarrow> (db, Inl e)
      | Inr x \<Rightarrow> process_rows build rs (service_create db x) (created_count + 1))"

definition process_records_df ::
  "externals \<Rightarrow> session \<Rightarrow> dataframe \<Rightarrow> string \<Rightarrow> session \<times> (pyexc + nat)" where
  "process_records_df ext db df user_id =
     (if df_empty df \<or> ''type'' \<notin> set (columns df) then (db, Inr 0)
      else process_rows (\<lambda>r. map_sum id RecordRow (record_data ext user_id r)) (rows df) db 0)"

definition process_workouts_df ::
  "externals \<Rightarrow> session \<Rightarrow> dataframe \<Rightarrow> string \<Rightarrow> session \<times> (pyexc + nat)" where
  "process_workouts_df ext db df user_id =
     (if df_empty df then (db, Inr 0)
      else process_rows (\<lambda>r. map_sum id WorkoutRow (workout_data ext user_id r)) (rows df) db 0)"

definition process_statistics_df ::
  "externals \<Rightarrow> session \<Rightarrow> dataframe \<Rightarrow> string \<Rightarrow> session \<times> (pyexc + nat)" where
  "process_statistics_df ext db df user_id =
     (if df_empty df then (db, Inr 0)
      else process_rows (\<lambda>r. map_sum id StatisticRow (stat_data ext user_id r)) (rows df) db 0)"

section \<open>\<open>XMLImportService.import_xml\<close>\<close>

record stats =
  records :: nat
  workouts :: nat
  statistics :: nat
  chunks_processed :: nat

text \<open>
  The loop over the chunks the parser yields. The result is the session and either the
  exception that left the loop or the counters at its end.
\<close>

fun import_chunks ::
  "externals \<Rightarrow> string \<Rightarrow> dataframe list \<Rightarrow> session \<Rightarrow> stats \<Rightarrow> session \<times> (pyexc + stats)" where
  "import_chunks ext user_id [] db st = (db, Inr st)"
| "import_chunks ext user_id (df # dfs) db st =
     (if df_empty df then import_chunks ext user_id dfs db st
      else
        let df_type = detect_dataframe_type df;
            (db', counted) =
              (if df_type = ''record'' then
                 (case process_records_df ext db df user_id of
                    (d, Inl e) \<Rightarrow> (d, Inl e)
                  | (d, Inr n) \<Rightarrow> (d, Inr (st\<lparr>records := records st + n\<rparr>)))
               else if df_type = ''workout'' then
                 (case process_workouts_df ext db df user_id of
                    (d, Inl e) \<Rightarrow> (d, Inl e)
                  | (d, Inr n) \<Rightarrow> (d, Inr (st\<lparr>workouts := workouts st + n\<rparr>)))
               else if df_type = ''statistic'' then
                 (case process_statistics_df ext db df user_id of
                    (d, Inl e) \<Rightarrow> (d, Inl e)
                  | (d, Inr n) \<Rightarrow> (d, Inr (st\<lparr>statistics := statistics st + n\<rparr>)))
               else (db, Inr st))
        in case counted of
             Inl e \<Rightarrow> (db', Inl e)
           | Inr st' \<Rightarrow>
               import_chunks ext user_id dfs db' (st'\<lparr>chunks_processed := chunks_processed st' + 1\<rparr>))"

text \<open>
  What \<open>XMLExporter.parse_xml\<close> yields for a file: the chunks in order, and the
  exception the generator raises after them, if any (malformed XML).
\<close>

type_synonym parsed = "dataframe list \<times> pyexc option"

text \<open>The \<open>try\<close> block of \<open>import_xml\<close> up to the end of the loop.\<close>

definition import_xml_loop ::
  "externals \<Rightarrow> session \<Rightarrow> string \<Rightarrow> parsed \<Rightarrow> session \<times> (pyexc + stats)" where
  "import_xml_loop ext db user_id p =
     (case import_chunks ext user_id (fst p) db
             \<lparr>records = 0, workouts = 0, statistics = 0, chunks_processed = 0\<rparr> of
        (db', Inl e) \<Rightarrow> (db', Inl e)
      | (db', Inr st) \<Rightarrow> (case snd p of Some e \<Rightarrow> (db', Inl e) | None \<Rightarrow> (db', Inr st)))"

text \<open>
  \<open>import_xml\<close>: the response text. Its handler catches every \<open>Exception\<close> and returns
  a response, so the call itself never raises (and nothing reaches the decorator
  \<open>handle_exceptions\<close>, which is not among the sources). The coroutine's body is taken
  as run by the call.
\<close>

definition import_xml :: "externals \<Rightarrow> session \<Rightarrow> string \<Rightarrow> parsed \<Rightarrow> session \<times> string" where
  "import_xml ext db user_id p =
     (case import_xml_loop ext db user_id p of
        (db', Inr st) \<Rightarrow>
          (db', ''XML import successful. '' @ ''Records: '' @ str_of_nat (records st)
                @ '', Workouts: '' @ str_of_nat (workouts st)
                @ '', Statistics: '' @ str_of_nat (statistics st))
      | (db', Inl e) \<Rightarrow> (db', ''XML import failed: '' @ exc_str e))"

section \<open>The upload task's own import (process_upload_task.py)\<close>

text \<open>
  \<open>_process_records_df\<close>, \<open>_process_workouts_df\<close> and \<open>_process_statistics_df\<close> of
  the task module: the dictionary is built from the raw cells (\<open>_safe_decimal\<close> of the
  module for the numbers), the pydantic model validates the dates, and any exception is
  replaced by an \<open>Exception\<close> with a prefixed text.
\<close>

definition record_data_task :: "externals \<Rightarrow> uuid \<Rightarrow> row \<Rightarrow> pyexc + record_create" where
  "record_data_task ext uid r =
     exc_bind (safe_decimal_task (row_get r ''value'' PyNone)) (\<lambda>v.
     exc_bind (ext_validate_dates ext (row_get r ''startDate'' PyNone)
                 (row_get r ''endDate'' PyNone) (row_get r ''creationDate'' PyNone)) (\<lambda>(sd, ed, cd).
     Inr \<lparr> rc_user_id = uid,
           rc_type = take 50 (str (row_get r ''type'' (PyStr []))),
           rc_sourceVersion = take 100 (str (row_get r ''sourceVersion'' (PyStr []))),
           rc_sourceName = take 100 (str (row_get r ''sourceName'' (PyStr []))),
           rc_deviceId = take 100 (str (row_get r ''device'' (PyStr []))),
           rc_startDate = sd, rc_endDate = ed, rc_creationDate = cd,
           rc_unit = take 10 (str (row_get r ''unit'' (PyStr []))),
           rc_value = v \<rparr>))"

definition workout_data_task :: "externals \<Rightarrow> uuid \<Rightarrow> row \<Rightarrow> pyexc + xml_workout_create" where
  "workout_data_task ext uid r =
     exc_bind (safe_decimal_task (row_get r ''duration'' PyNone)) (\<lambda>d.
     exc_bind (ext_validate_dates ext (row_get r ''startDate'' PyNone)
                 (row_get r ''endDate'' PyNone) (row_get r ''creationDate'' PyNone)) (\<lambda>(sd, ed, cd).
     Inr \<lparr> wc_user_id = uid,
           wc_type = take 50 (str (row_get r ''type'' (PyStr []))),
           wc_duration = d,
           wc_durationUnit = take 10 (str (row_get r ''durationUnit'' (PyStr []))),
           wc_sourceName = take 100 (str (row_get r ''sourceName'' (PyStr []))),
           wc_startDate = sd, wc_endDate = ed, wc_creationDate = cd \<rparr>))"

definition stat_data_task :: "externals \<Rightarrow> uuid \<Rightarrow> row \<Rightarrow> pyexc + workout_statistic_create" where
  "stat_data_task ext uid r =
     exc_bind (safe_decimal_task (row_get r ''sum'' PyNone)) (\<lambda>s.
     exc_bind (safe_decimal_task (row_get r ''average'' PyNone)) (\<lambda>a.
     exc_bind (safe_decimal_task (row_get r ''maximum'' PyNone)) (\<lambda>mx.
     exc_bind (safe_decimal_task (row_get r ''minimum'' PyNone)) (\<lambda>mn.
     exc_bind (ext_validate_dates ext (row_get r ''startDate'' PyNone)
                 (row_get r ''endDate'' PyNone) (row_get r ''creationDate'' PyNone)) (\<lambda>(sd, ed, cd).
     Inr \<lparr> sc_user_id = uid,
           sc_type = take 50 (str (row_get r ''type'' (PyStr []))),
           sc_startDate = sd, sc_endDate = ed, sc_creationDate = cd,
           sc_sum = s, sc_average = a, sc_maximum = mx, sc_minimum = mn,
           sc_unit = take 10 (str (row_get r ''unit'' (PyStr []))) \<rparr>)))))"

fun process_rows_task ::
  "(row \<Rightarrow> pyexc + entity) \<Rightarrow> string \<Rightarrow> row list \<Rightarrow> session \<Rightarrow> session \<times> (pyexc + unit)" where
  "process_rows_task build failed [] db = (db, Inr ())"
| "process_rows_task build failed (r # rs) db =
     (case build r of
        Inl e \<Rightarrow> (db, Inl (PyExc PlainException (failed @ exc_str e)))
      | Inr x \<Rightarrow> process_rows_task build failed rs (service_create db x))"

definition process_records_df_task ::
  "externals \<Rightarrow> session \<Rightarrow> dataframe \<Rightarrow> uuid \<Rightarrow> session \<times> (pyexc + unit)" where
  "process_records_df_task ext db df uid =
     process_rows_task (\<lambda>r. map_sum id RecordRow (record_data_task ext uid r))
       ''Failed to process record: '' (rows df) db"

definition process_workouts_df_task ::
  "externals \<Rightarrow> session \<Rightarrow> dataframe \<Rightarrow> uuid \<Rightarrow> session \<times> (pyexc + unit)" where
  "process_workouts_df_task ext db df uid =
     process_rows_task (\<lambda>r. map_sum id WorkoutRow (workout_data_task ext uid r))
       ''Failed to process workout: '' (rows df) db"

definition process_statistics_df_task ::
  "externals \<Rightarrow> session \<Rightarrow> dataframe \<Rightarrow> uuid \<Rightarrow> session \<times> (pyexc + unit)" where
  "process_statistics_df_task ext db df uid =
     process_rows_task (\<lambda>r. map_sum id StatisticRow (stat_data_task ext uid r))
       ''Failed to process statistic: '' (rows df) db"

text \<open>The loop of \<open>_import_xml_data\<close>: the dispatch tests \<open>value\<close> first.\<close>

fun import_chunks_task ::
  "externals \<Rightarrow> uuid \<Rightarrow> dataframe list \<Rightarrow> session \<Rightarrow> session \<times> (pyexc + unit)" where
  "import_chunks_task ext uid [] db = (db, Inr ())"
| "import_chunks_task ext uid (df # dfs) db =
     (if df_empty df then import_chunks_task ext uid dfs db
      else
        case (if ''value'' \<in> set (columns df) then process_records_df_task ext db df uid
              else if ''duration'' \<in> set (columns df) then process_workouts_df_task ext db df uid
              else if ''sum'' \<in> set (columns df) then process_statistics_df_task ext db df uid
              else (db, Inr ())) of
          (db', Inl e) \<Rightarrow> (db', Inl e)
        | (db', Inr u) \<Rightarrow> import_chunks_task ext uid dfs db')"

definition import_xml_data ::
  "externals \<Rightarrow> session \<Rightarrow> parsed \<Rightarrow> string \<Rightarrow> session \<times> (pyexc + unit)" where
  "import_xml_data ext db p user_id =
     (case ext_UUID ext user_id of
        Inl e \<Rightarrow> (db, Inl e)
      | Inr user_uuid \<Rightarrow>
          (case import_chunks_task ext user_uuid (fst p) db of
             (db', Inl e) \<Rightarrow> (db', Inl e)
           | (db', Inr u) \<Rightarrow> (case snd p of Some e \<Rightarrow> (db', Inl e) | None \<Rightarrow> (db', Inr ()))))"

section \<open>The orchestration of one uploaded file\<close>

subsection \<open>Strings and paths\<close>

text \<open>\<open>s.split(sep)\<close> for a one-character separator, \<open>s.replace(old, new)\<close> for a
  non-empty \<open>old\<close>, and \<open>os.path.join\<close> of two components on POSIX.\<close>

fun split_on :: "char \<Rightarrow> string \<Rightarrow> string list" where
  "split_on sep [] = [[]]"
| "split_on sep (c # cs) =
     (if c = sep then [] # split_on sep cs
      else (case split_on sep cs of p # ps \<Rightarrow> (c # p) # ps | [] \<Rightarrow> [[c]]))"

fun str_replace :: "string \<Rightarrow> string \<Rightarrow> string \<Rightarrow> string" where
  "str_replace old new [] = []"
| "str_replace old new (c # cs) =
     (if old \<noteq> [] \<and> take (length old) (c # cs) = old
      then new @ str_replace old new (drop (length old) (c # cs))
      else c # str_replace old new cs)"

definition os_path_join :: "string \<Rightarrow> string \<Rightarrow> string" where
  "os_path_join a b =
     (if b \<noteq> [] \<and> hd b = CHR ''/'' then b
      else if a = [] \<or> last a = CHR ''/'' then a @ b
      else a @ ''/'' @ b)"

text \<open>Truth value of an optional string: \<open>None\<close> and \<open>''\<close> are false.\<close>

definition truthy :: "string option \<Rightarrow> bool" where
  "truthy s = (case s of None \<Rightarrow> False | Some t \<Rightarrow> t \<noteq> [])"

subsection \<open>The world around a run\<close>

text \<open>
  The relational store (the committed rows) and the files of the temporary directory.
  What the outside does during one run is given by \<open>env\<close>: the outcome of the download,
  what the parser yields for the downloaded file, the outcome of the commit, of the
  dump tool and of the upload. A failing download or dump says whether it left a file
  at its target path.
\<close>

record world =
  store :: "entity list"
  files :: "string set"

datatype outcome = Done | Raises pyexc bool

record env =
  env_temp_dir :: string
  env_download_file :: outcome
  env_parse_xml :: parsed
  env_commit :: "pyexc option"
  env_pg_dump :: outcome
  env_upload_file :: "pyexc option"

record task_result =
  tr_bucket :: string
  tr_input_key :: string
  tr_output_key :: "string option"
  tr_user_id :: string
  tr_status :: string
  tr_message :: "string option"
  tr_error :: "string option"

text \<open>
  \<open>_create_postgres_dump\<close>: the files after the call and the exception raised, if any.
  A \<open>CalledProcessError\<close> (its text here is the captured stderr) becomes an
  \<open>Exception\<close>; any other exception of \<open>subprocess.run\<close> passes unchanged.
\<close>

definition create_postgres_dump :: "env \<Rightarrow> string \<Rightarrow> string set \<Rightarrow> string set \<times> pyexc option" where
  "create_postgres_dump env dump_file fs =
     (case env_pg_dump env of
        Done \<Rightarrow> (insert dump_file fs, None)
      | Raises e left \<Rightarrow>
          ((if left then insert dump_file fs else fs),
           Some (case e of PyExc c err \<Rightarrow>
                   if c = CalledProcessError then PyExc PlainException (''pg_dump failed: '' @ err)
                   else e)))"

text \<open>
  The inner \<open>try\<close> of the task: the import runs in a fresh session; then \<open>commit\<close>
  makes the session's rows visible, and any exception rolls the session back and is
  raised again. \<open>imp\<close> is what the import did: the session's rows and its return value
  or exception.
\<close>

definition import_and_commit ::
  "session \<times> (pyexc + 'a) \<Rightarrow> env \<Rightarrow> entity list \<Rightarrow> entity list \<times> (pyexc + 'a)" where
  "import_and_commit imp env st =
     (case imp of
        (db, Inl e) \<Rightarrow> (st, Inl e)
      | (db, Inr r) \<Rightarrow>
          (case env_commit env of
             Some e \<Rightarrow> (st, Inl e)
           | None \<Rightarrow> (st @ db, Inr r)))"

text \<open>The \<open>finally\<close> block: each temporary file that was named and exists is removed.\<close>

definition cleanup :: "string option \<Rightarrow> string option \<Rightarrow> string set \<Rightarrow> string set" where
  "cleanup temp_xml_file dump_file fs =
     (let fs1 = (if truthy temp_xml_file \<and> the temp_xml_file \<in> fs
                 then fs - {the temp_xml_file} else fs)
      in if truthy dump_file \<and> the dump_file \<in> fs1 then fs1 - {the dump_file} else fs1)"

text \<open>
  The body shared by \<open>process_uploaded_xml_file\<close> (process_uploaded_task.py) and
  \<open>process_uploaded_file\<close> (process_upload_task.py), which differ only in the import
  they call and in the message of a success. \<open>import_data user_id\<close> is the import on a
  fresh session. The result is the returned dictionary and the world after the
  \<open>finally\<close> block.
\<close>

definition effective_user_id :: "string option \<Rightarrow> string \<Rightarrow> string" where
  "effective_user_id user_id object_key =
     (if \<not> truthy user_id then hd (split_on CHR ''/'' object_key) else the user_id)"

definition temp_xml_path :: "env \<Rightarrow> string \<Rightarrow> string" where
  "temp_xml_path env object_key =
     os_path_join (env_temp_dir env) (''temp_import_'' @ last (split_on CHR ''/'' object_key))"

definition dump_path :: "env \<Rightarrow> string \<Rightarrow> string" where
  "dump_path env object_key =
     os_path_join (env_temp_dir env)
       (''export_'' @ str_replace ''.xml'' ''.sql'' (last (split_on CHR ''/'' object_key)))"

definition output_key_of :: "string \<Rightarrow> string \<Rightarrow> string" where
  "output_key_of user_id object_key =
     user_id @ ''/processed/'' @ str_replace ''.xml'' ''.sql'' (last (split_on CHR ''/'' object_key))"

definition failed_result :: "string \<Rightarrow> string \<Rightarrow> string \<Rightarrow> pyexc \<Rightarrow> task_result" where
  "failed_result bucket_name object_key user_id e =
     \<lparr> tr_bucket = bucket_name, tr_input_key = object_key, tr_output_key = None,
       tr_user_id = user_id, tr_status = ''failed'', tr_message = None,
       tr_error = Some (exc_str e) \<rparr>"

definition success_result :: "string \<Rightarrow> string \<Rightarrow> string \<Rightarrow> string \<Rightarrow> task_result" where
  "success_result bucket_name object_key user_id message =
     \<lparr> tr_bucket = bucket_name, tr_input_key = object_key,
       tr_output_key = Some (output_key_of user_id object_key),
       tr_user_id = user_id, tr_status = ''success'', tr_message = Some message,
       tr_error = None \<rparr>"

text \<open>
  The \<open>try\<close> block with its \<open>except\<close>: the returned dictionary, the world, and the
  value of the local \<open>dump_file\<close> when the block is left.
\<close>

definition run_try ::
  "(string \<Rightarrow> session \<times> (pyexc + string)) \<Rightarrow> env \<Rightarrow> world \<Rightarrow> string \<Rightarrow> string \<Rightarrow> string option
     \<Rightarrow> task_result \<times> world \<times> string option" where
  "run_try import_data env w bucket_name object_key user_id0 =
     (let user_id = effective_user_id user_id0 object_key;
          temp_xml_file = temp_xml_path env object_key;
          failed = failed_result bucket_name object_key user_id
      in case env_download_file env of
           Raises e left \<Rightarrow>
             (failed e,
              w\<lparr>files := (if left then insert temp_xml_file (files w) else files w)\<rparr>, None)
         | Done \<Rightarrow>
             (let fs1 = insert temp_xml_file (files w) in
              case import_and_commit (import_data user_id) env (store w) of
                (st1, Inl e) \<Rightarrow> (failed e, \<lparr>store = st1, files = fs1\<rparr>, None)
              | (st1, Inr message) \<Rightarrow>
                  (let dump_file = dump_path env object_key in
                   case create_postgres_dump env dump_file fs1 of
                     (fs2, Some e) \<Rightarrow> (failed e, \<lparr>store = st1, files = fs2\<rparr>, Some dump_file)
                   | (fs2, None) \<Rightarrow>
                       (case env_upload_file env of
                          Some e \<Rightarrow> (failed e, \<lparr>store = st1, files = fs2\<rparr>, Some dump_file)
                        | None \<Rightarrow>
                            (success_result bucket_name object_key user_id message,
                             \<lparr>store = st1, files = fs2\<rparr>, Some dump_file)))))"

definition run_task ::
  "(string \<Rightarrow> session \<times> (pyexc + string)) \<Rightarrow> env \<Rightarrow> world \<Rightarrow> string \<Rightarrow> string \<Rightarrow> string option
     \<Rightarrow> task_result \<times> world" where
  "run_task import_data env w bucket_name object_key user_id0 =
     (case run_try import_data env w bucket_name object_key user_id0 of
        (result, w', dump_file) \<Rightarrow>
          (result,
           w'\<lparr>files := cleanup (Some (temp_xml_path env object_key)) dump_file (files w')\<rparr>))"

text \<open>
  \<open>process_uploaded_xml_file\<close>: the import is \<open>xml_import_service.import_xml\<close>, whose
  response text is the message of a success.
\<close>

definition process_uploaded_xml_file ::
  "externals \<Rightarrow> env \<Rightarrow> world \<Rightarrow> string \<Rightarrow> string \<Rightarrow> string option \<Rightarrow> task_result \<times> world" where
  "process_uploaded_xml_file ext env w bucket_name object_key user_id =
     run_task (\<lambda>uid. case import_xml ext [] uid (env_parse_xml env) of
                        (db, response) \<Rightarrow> (db, Inr response))
       env w bucket_name object_key user_id"

text \<open>\<open>process_uploaded_file\<close> of process_upload_task.py: the import is
  \<open>_import_xml_data\<close>.\<close>

definition process_uploaded_file ::
  "externals \<Rightarrow> env \<Rightarrow> world \<Rightarrow> string \<Rightarrow> string \<Rightarrow> string option \<Rightarrow> task_result \<times> world" where
  "process_uploaded_file ext env w bucket_name object_key user_id =
     run_task (\<lambda>uid. case import_xml_data ext [] (env_parse_xml env) uid of
                        (db, r) \<Rightarrow> (db, map_sum id (\<lambda>u. ''Import completed successfully'') r))
       env w bucket_name object_key user_id"

section \<open>The queue consumer (tasks.py)\<close>

subsection \<open>JSON values as Python sees them\<close>

text \<open>
  What \<open>json.loads\<close> returns: a dictionary is the list of its items (keys distinct).
  The operations below are Python's on such values: \<open>k in x\<close>, \<open>x[k]\<close> for a string
  \<open>k\<close>, iteration, and \<open>x.get(k)\<close>, each with the exception it raises on a value of
  the wrong type.
\<close>

datatype json =
  JNull | JBool bool | JNum int | JStr string | JArr "json list" | JObj "(string \<times> json) list"

fun is_infix :: "string \<Rightarrow> string \<Rightarrow> bool" where
  "is_infix k [] = (k = [])"
| "is_infix k (c # cs) = (take (length k) (c # cs) = k \<or> is_infix k cs)"

fun py_contains :: "string \<Rightarrow> json \<Rightarrow> pyexc + bool" where
  "py_contains k (JObj kvs) = Inr (k \<in> set (map fst kvs))"
| "py_contains k (JArr xs) = Inr (JStr k \<in> set xs)"
| "py_contains k (JStr s) = Inr (is_infix k s)"
| "py_contains k x = Inl (PyExc TypeError ''argument is not iterable'')"

fun py_subscript :: "json \<Rightarrow> string \<Rightarrow> pyexc + json" where
  "py_subscript (JObj kvs) k =
     (case map_of kvs k of None \<Rightarrow> Inl (PyExc KeyError k) | Some v \<Rightarrow> Inr v)"
| "py_subscript (JArr xs) k = Inl (PyExc TypeError ''list indices must be integers or slices, not str'')"
| "py_subscript (JStr s) k = Inl (PyExc TypeError ''string indices must be integers, not str'')"
| "py_subscript x k = Inl (PyExc TypeError ''object is not subscriptable'')"

fun py_iter :: "json \<Rightarrow> pyexc + json list" where
  "py_iter (JArr xs) = Inr xs"
| "py_iter (JObj kvs) = Inr (map (\<lambda>kv. JStr (fst kv)) kvs)"
| "py_iter (JStr s) = Inr (map (\<lambda>c. JStr [c]) s)"
| "py_iter x = Inl (PyExc TypeError ''object is not iterable'')"

fun py_get :: "json \<Rightarrow> string \<Rightarrow> pyexc + json" where
  "py_get (JObj kvs) k = Inr (case map_of kvs k of None \<Rightarrow> JNull | Some v \<Rightarrow> v)"
| "py_get x k = Inl (PyExc AttributeError ''object has no attribute get'')"

subsection \<open>One poll\<close>

text \<open>
  A received message: what \<open>json.loads\<close> makes of its body (a value, or the exception
  it raises) and its receipt handle. The queue's side of a poll: the tasks enqueued by
  \<open>delay\<close> (bucket and key as given), the receipt handles deleted, and the calls made
  (a receive, a sleep of so many seconds), in order. \<open>sqs_env\<close> says which enqueue and
  which delete fail.
\<close>

record message =
  msg_Body :: "pyexc + json"
  msg_ReceiptHandle :: string

datatype event = Receive | Sleep nat

record sqs_world =
  dispatched :: "(json \<times> json) list"
  deleted :: "string list"
  events :: "event list"

record sqs_env =
  delay_error :: "json \<Rightarrow> json \<Rightarrow> pyexc option"
  delete_error :: "string \<Rightarrow> pyexc option"

text \<open>\<open>record['s3']['bucket']['name']\<close> and \<open>record['s3']['object']['key']\<close>.\<close>

definition s3_location :: "json \<Rightarrow> pyexc + (json \<times> json)" where
  "s3_location rcd =
     exc_bind (py_subscript rcd ''s3'') (\<lambda>s3.
     exc_bind (py_subscript s3 ''bucket'') (\<lambda>b.
     exc_bind (py_subscript b ''name'') (\<lambda>bucket_name.
     exc_bind (py_subscript rcd ''s3'') (\<lambda>s3'.
     exc_bind (py_subscript s3' ''object'') (\<lambda>ob.
     exc_bind (py_subscript ob ''key'') (\<lambda>object_key.
     Inr (bucket_name, object_key)))))))"

text \<open>The loop over \<open>message_body['Records']\<close>; the number is \<open>processed_count\<close>.\<close>

fun handle_records ::
  "sqs_env \<Rightarrow> json list \<Rightarrow> sqs_world \<Rightarrow> nat \<Rightarrow> (sqs_world \<times> nat) \<times> pyexc option" where
  "handle_records q [] w n = ((w, n), None)"
| "handle_records q (rcd # rs) w n =
     (case py_get rcd ''eventSource'' of
        Inl e \<Rightarrow> ((w, n), Some e)
      | Inr src \<Rightarrow>
          if src = JStr ''aws:s3'' then
            (case s3_location rcd of
               Inl e \<Rightarrow> ((w, n), Some e)
             | Inr (bucket_name, object_key) \<Rightarrow>
                 (case delay_error q bucket_name object_key of
                    Some e \<Rightarrow> ((w, n), Some e)
                  | None \<Rightarrow>
                      handle_records q rs
                        (w\<lparr>dispatched := dispatched w @ [(bucket_name, object_key)]\<rparr>) (n + 1)))
          else handle_records q rs w n)"

text \<open>The body of the loop over the messages, for one message.\<close>

definition handle_message ::
  "sqs_env \<Rightarrow> message \<Rightarrow> sqs_world \<Rightarrow> nat \<Rightarrow> (sqs_world \<times> nat) \<times> pyexc option" where
  "handle_message q m w n =
     (case msg_Body m of
        Inl e \<Rightarrow> ((w, n), Some e)
      | Inr message_body \<Rightarrow>
          (case py_contains ''Records'' message_body of
             Inl e \<Rightarrow> ((w, n), Some e)
           | Inr has_records \<Rightarrow>
               (case (if has_records
                      then (case exc_bind (py_subscript message_body ''Records'') py_iter of
                              Inl e \<Rightarrow> ((w, n), Some e)
                            | Inr recs \<Rightarrow> handle_records q recs w n)
                      else ((w, n), None)) of
                  ((w1, n1), Some e) \<Rightarrow> ((w1, n1), Some e)
                | ((w1, n1), None) \<Rightarrow>
                    (case delete_error q (msg_ReceiptHandle m) of
                       Some e \<Rightarrow> ((w1, n1), Some e)
                     | None \<Rightarrow>
                         ((w1\<lparr>deleted := deleted w1 @ [msg_ReceiptHandle m]\<rparr>, n1), None)))))"

fun handle_messages ::
  "sqs_env \<Rightarrow> message list \<Rightarrow> sqs_world \<Rightarrow> nat \<Rightarrow> (sqs_world \<times> nat) \<times> pyexc option" where
  "handle_messages q [] w n = ((w, n), None)"
| "handle_messages q (m # ms) w n =
     (case handle_message q m w n of
        ((w1, n1), Some e) \<Rightarrow> ((w1, n1), Some e)
      | ((w1, n1), None) \<Rightarrow> handle_messages q ms w1 n1)"

record poll_result =
  messages_processed :: nat
  total_messages :: nat
  messages :: "message list"

text \<open>
  \<open>poll_sqs_messages\<close>: \<open>received\<close> is what \<open>receive_message\<close> does on this call (the
  batch, or an exception). Every exception leaves as an \<open>HTTPException\<close> with status 500
  and the text of the cause.
\<close>

definition poll_sqs_messages ::
  "sqs_env \<Rightarrow> pyexc + message list \<Rightarrow> sqs_world \<Rightarrow> sqs_world \<times> (pyexc + poll_result)" where
  "poll_sqs_messages q received w0 =
     (let w = w0\<lparr>events := events w0 @ [Receive]\<rparr> in
      case received of
        Inl e \<Rightarrow> (w, Inl (PyExc HTTPException (exc_str e)))
      | Inr msgs \<Rightarrow>
          (case handle_messages q msgs w 0 of
             ((w1, n), Some e) \<Rightarrow> (w1, Inl (PyExc HTTPException (exc_str e)))
           | ((w1, n), None) \<Rightarrow>
               (w1, Inr \<lparr> messages_processed = n, total_messages = length msgs,
                          messages = msgs \<rparr>)))"

subsection \<open>The repeated poll\<close>

text \<open>
  \<open>poll_sqs_task\<close>: \<open>for _ in range(expiration_seconds // 5)\<close>, a poll and a sleep of
  five seconds. \<open>receive i\<close> is what the \<open>i\<close>-th call of \<open>receive_message\<close> does. An
  exception of a poll leaves the loop and the task.
\<close>

fun poll_iterations ::
  "sqs_env \<Rightarrow> (nat \<Rightarrow> pyexc + message list) \<Rightarrow> nat \<Rightarrow> nat \<Rightarrow> sqs_world \<Rightarrow> sqs_world \<times> pyexc option" where
  "poll_iterations q receive i 0 w = (w, None)"
| "poll_iterations q receive i (Suc k) w =
     (case poll_sqs_messages q (receive i) w of
        (w1, Inl e) \<Rightarrow> (w1, Some e)
      | (w1, Inr r) \<Rightarrow>
          poll_iterations q receive (Suc i) k (w1\<lparr>events := events w1 @ [Sleep 5]\<rparr>))"

definition poll_sqs_task ::
  "sqs_env \<Rightarrow> (nat \<Rightarrow> pyexc + message list) \<Rightarrow> int \<Rightarrow> sqs_world \<Rightarrow> sqs_world \<times> pyexc option" where
  "poll_sqs_task q receive expiration_seconds w =
     poll_iterations q receive 0 (nat (expiration_seconds div 5)) w"

section \<open>Notions used to state the properties\<close>

text \<open>The kind of a stored row.\<close>

definition entity_kind :: "entity \<Rightarrow> string" where
  "entity_kind x =
     (case x of RecordRow r \<Rightarrow> ''record'' | WorkoutRow w \<Rightarrow> ''workout''
      | StatisticRow s \<Rightarrow> ''statistic'')"

text \<open>
  The storage-event entries of a message: the entries of its \<open>Records\<close> whose
  \<open>eventSource\<close> is \<open>aws:s3\<close>, and the tasks they stand for. A message lacks such an
  entry when there is none (no \<open>Records\<close> at all, or none from that source).
\<close>

definition is_s3_record :: "json \<Rightarrow> bool" where
  "is_s3_record rcd = (py_get rcd ''eventSource'' = Inr (JStr ''aws:s3''))"

definition body_records :: "message \<Rightarrow> json list" where
  "body_records m =
     (case msg_Body m of
        Inl e \<Rightarrow> []
      | Inr b \<Rightarrow> if py_contains ''Records'' b = Inr True
                 then (case exc_bind (py_subscript b ''Records'') py_iter of
                         Inl e \<Rightarrow> [] | Inr recs \<Rightarrow> recs)
                 else [])"

definition message_dispatches :: "message \<Rightarrow> (json \<times> json) list" where
  "message_dispatches m =
     concat (map (\<lambda>rcd. case s3_location rcd of Inl e \<Rightarrow> [] | Inr bk \<Rightarrow> [bk])
               (filter is_s3_record (body_records m)))"

definition lacks_s3_record :: "message \<Rightarrow> bool" where
  "lacks_s3_record m = (filter is_s3_record (body_records m) = [])"

text \<open>The number of polls issued so far: the receive calls among the events.\<close>

definition poll_count :: "sqs_world \<Rightarrow> nat" where
  "poll_count w = length (filter (\<lambda>e. e = Receive) (events w))"

section \<open>Sample inputs\<close>

text \<open>
  Concrete inputs for the evaluations below. The sample libraries accept one user id
  and one date string and raise the library's error on anything else.
\<close>

definition sample_user :: string where
  "sample_user = ''12345678-1234-1234-1234-123456789012''"

definition sample_uuid :: uuid where
  "sample_uuid = Uuid 0x12345678123412341234123456789012"

definition sample_externals :: externals where
  "sample_externals =
     \<lparr> ext_UUID = (\<lambda>s. if s = ''12345678-1234-1234-1234-123456789012''
                        then Inr (Uuid 0x12345678123412341234123456789012)
                        else Inl (PyExc ValueError ''badly formed hexadecimal UUID string'')),
       ext_to_datetime = (\<lambda>v. case v of
            PyStr s \<Rightarrow> if s = ''2024-01-01 10:00:00 +0000'' then Inr (Timestamp 1704103200)
                       else Inl (PyExc ValueError
                                   (''Unknown datetime string format, unable to parse: '' @ s))
          | _ \<Rightarrow> Inr NaT),
       ext_model_dates = (\<lambda>a b c.
          if a = NaT \<or> b = NaT \<or> c = NaT
          then Some (PyExc ValueError ''NaTType does not support utcoffset'') else None),
       ext_validate_dates = (\<lambda>a b c.
          if a = PyStr ''2024-01-01 10:00:00 +0000'' \<and> b = a \<and> c = a
          then Inr (Timestamp 1704103200, Timestamp 1704103200, Timestamp 1704103200)
          else Inl (PyExc ValueError ''3 validation errors for RecordCreate'')) \<rparr>"

definition good_row :: "string \<Rightarrow> row" where
  "good_row v =
     [(''type'', PyStr ''HeartRate''), (''value'', PyStr v), (''unit'', PyStr ''count/min''),
      (''startDate'', PyStr ''2024-01-01 10:00:00 +0000''),
      (''endDate'', PyStr ''2024-01-01 10:00:00 +0000''),
      (''creationDate'', PyStr ''2024-01-01 10:00:00 +0000'')]"

definition bad_date_row :: row where
  "bad_date_row =
     [(''type'', PyStr ''HeartRate''), (''value'', PyStr ''62''), (''unit'', PyStr ''count/min''),
      (''startDate'', PyStr ''yesterday-ish''),
      (''endDate'', PyStr ''2024-01-01 10:00:00 +0000''),
      (''creationDate'', PyStr ''2024-01-01 10:00:00 +0000'')]"

definition record_columns :: "string list" where
  "record_columns = [''type'', ''value'', ''unit'', ''startDate'', ''endDate'', ''creationDate'']"

definition sample_record :: "decimal option \<Rightarrow> record_create" where
  "sample_record v =
     \<lparr> rc_user_id = sample_uuid, rc_type = ''HeartRate'',
       rc_sourceVersion = [], rc_sourceName = [], rc_deviceId = [],
       rc_startDate = Timestamp 1704103200, rc_endDate = Timestamp 1704103200,
       rc_creationDate = Timestamp 1704103200, rc_unit = ''count/min'',
       rc_value = v \<rparr>"

text \<open>A row whose type has 57 characters and whose unit has 12.\<close>

definition long_row :: row where
  "long_row =
     [(''type'', PyStr ''HKQuantityTypeIdentifierHeartRateVariabilitySDNN-extended''),
      (''value'', PyStr ''61''), (''unit'', PyStr ''milliseconds''),
      (''startDate'', PyStr ''2024-01-01 10:00:00 +0000''),
      (''endDate'', PyStr ''2024-01-01 10:00:00 +0000''),
      (''creationDate'', PyStr ''2024-01-01 10:00:00 +0000'')]"

text \<open>A chunk of five record rows whose second row has an unreadable start date.\<close>

definition five_row_chunk :: dataframe where
  "five_row_chunk =
     \<lparr> columns = record_columns,
       rows = [good_row ''61'', bad_date_row, good_row ''63'', good_row ''64'', good_row ''65''] \<rparr>"

definition one_row_chunk :: dataframe where
  "one_row_chunk = \<lparr> columns = record_columns, rows = [good_row ''61''] \<rparr>"

definition empty_chunk :: dataframe where
  "empty_chunk = \<lparr> columns = record_columns, rows = [] \<rparr>"

definition unknown_chunk :: dataframe where
  "unknown_chunk = \<lparr> columns = [''type'', ''note''],
                      rows = [[(''type'', PyStr ''Memo''), (''note'', PyStr ''n/a'')]] \<rparr>"

text \<open>The chunk of the specification's example: a statistic that also carries a
  \<open>value\<close> column.\<close>

definition stat_chunk :: dataframe where
  "stat_chunk =
     \<lparr> columns = [''type'', ''sum'', ''average'', ''maximum'', ''minimum'', ''value'', ''unit'',
                  ''startDate'', ''endDate'', ''creationDate''],
       rows = [[(''type'', PyStr ''HeartRate''), (''sum'', PyStr ''120''),
                (''average'', PyStr ''60''), (''maximum'', PyStr ''61''),
                (''minimum'', PyStr ''59''), (''value'', PyStr ''61''),
                (''unit'', PyStr ''count/min''),
                (''startDate'', PyStr ''2024-01-01 10:00:00 +0000''),
                (''endDate'', PyStr ''2024-01-01 10:00:00 +0000''),
                (''creationDate'', PyStr ''2024-01-01 10:00:00 +0000'')]] \<rparr>"

definition sample_statistic :: workout_statistic_create where
  "sample_statistic =
     \<lparr> sc_user_id = sample_uuid, sc_type = ''HeartRate'',
       sc_startDate = Timestamp 1704103200, sc_endDate = Timestamp 1704103200,
       sc_creationDate = Timestamp 1704103200,
       sc_sum = Some (Dec False 120 0), sc_average = Some (Dec False 60 0),
       sc_maximum = Some (Dec False 61 0), sc_minimum = Some (Dec False 59 0),
       sc_unit = ''count/min'' \<rparr>"

text \<open>An environment in which every outside step succeeds, and an empty world.\<close>

definition all_fine :: "parsed \<Rightarrow> env" where
  "all_fine p = \<lparr> env_temp_dir = ''/tmp'', env_download_file = Done, env_parse_xml = p,
                  env_commit = None, env_pg_dump = Done, env_upload_file = None \<rparr>"

definition empty_world :: world where
  "empty_world = \<lparr> store = [], files = {} \<rparr>"

text \<open>An environment whose dump tool exits with an error after writing part of its file.\<close>

definition dump_fails :: "parsed \<Rightarrow> env" where
  "dump_fails p =
     \<lparr> env_temp_dir = ''/tmp'', env_download_file = Done, env_parse_xml = p,
       env_commit = None,
       env_pg_dump = Raises (PyExc CalledProcessError ''pg_dump: error: connection to server failed'') True,
       env_upload_file = None \<rparr>"

definition sample_key :: string where
  "sample_key = ''12345678-1234-1234-1234-123456789012/raw/export.xml''"

text \<open>
  Messages: one whose body is plain text (\<open>json.loads\<close> raises), the test event the
  storage service sends when notifications are set up (no \<open>Records\<close>), and a
  notification of one uploaded object. A queue on which every enqueue and delete
  succeeds, with nothing done yet.
\<close>

definition plain_text_message :: message where
  "plain_text_message =
     \<lparr> msg_Body = Inl (PyExc JSONDecodeError ''Expecting value: line 1 column 1 (char 0)''),
       msg_ReceiptHandle = ''rh-1'' \<rparr>"

definition test_event_message :: message where
  "test_event_message =
     \<lparr> msg_Body = Inr (JObj [(''Service'', JStr ''Amazon S3''), (''Event'', JStr ''s3:TestEvent'')]),
       msg_ReceiptHandle = ''rh-2'' \<rparr>"

definition upload_message :: message where
  "upload_message =
     \<lparr> msg_Body = Inr (JObj [(''Records'', JArr [JObj
          [(''eventSource'', JStr ''aws:s3''),
           (''s3'', JObj [(''bucket'', JObj [(''name'', JStr ''uploads'')]),
                          (''object'', JObj [(''key'', JStr ''u1/raw/export.xml'')])])]])]),
       msg_ReceiptHandle = ''rh-3'' \<rparr>"

definition quiet_queue :: sqs_env where
  "quiet_queue = \<lparr> delay_error = (\<lambda>b k. None), delete_error = (\<lambda>h. None) \<rparr>"

definition fresh_queue :: sqs_world where
  "fresh_queue = \<lparr> dispatched = [], deleted = [], events = [] \<rparr>"

text \<open>Every receive returns the plain-text message: it is never deleted, so the queue
  delivers it again.\<close>

definition poison_receive :: "nat \<Rightarrow> pyexc + message list" where
  "poison_receive i = Inr [plain_text_message]"

definition calm_receive :: "nat \<Rightarrow> pyexc + message list" where
  "calm_receive i = (if i = 0 then Inr [upload_message, test_event_message] else Inr [])"

section \<open>The decimal coercion\<close>

lemma Decimal_zero: "Decimal ''0'' = Inr (Dec False 0 0)"
  by code_simp

lemma Decimal_float_zero: "Decimal ''0.0'' = Inr (Dec False 0 (- 1))"
  by code_simp

lemma Decimal_float_neg_zero: "Decimal ''-0.0'' = Inr (Dec True 0 (- 1))"
  by code_simp

text \<open>
  A value whose text is not a numeric string, other than \<open>None\<close> and the float zero,
  makes \<open>_safe_decimal\<close> raise: \<open>InvalidOperation\<close> is not among the classes the
  handler names.
\<close>

lemma safe_decimal_unparsable:
  assumes "decimal_of_string (str v) = None" and "v \<noteq> PyNone" and "\<not> is_float_zero v"
  shows "safe_decimal v = Inl (PyExc InvalidOperation ''[<class 'decimal.ConversionSyntax'>]'')"
  using assms by (simp add: safe_decimal_def Decimal_def)

lemma abc_unparsable: "decimal_of_string ''abc'' = None"
  by code_simp

text \<open>
  Claim C2. The coercion is to return absent, and never raise, on every scalar whose
  text fails the strict decimal parse. On the string \<open>abc\<close> the parse fails, the value
  is not the float zero, and \<open>_safe_decimal\<close> raises \<open>decimal.InvalidOperation\<close>.
\<close>

theorem safe_decimal_raises_on_unparsable_text:
  "decimal_of_string (str (PyStr ''abc'')) = None
   \<and> is_float_zero (PyStr ''abc'') = False
   \<and> safe_decimal (PyStr ''abc'')
       = Inl (PyExc InvalidOperation ''[<class 'decimal.ConversionSyntax'>]'')"
  using safe_decimal_unparsable[of "PyStr ''abc''"] abc_unparsable by simp

text \<open>
  Claim C10, as stated: the two coercions return the same result on every input. They
  differ on the float \<open>0.0\<close>: \<open>Decimal('0')\<close> from the service, \<open>Decimal('0.0')\<close> from
  the task module.
\<close>

theorem safe_decimal_versions_differ_at_float_zero:
  "safe_decimal (PyFloat ''0.0'') \<noteq> safe_decimal_task (PyFloat ''0.0'')"
  by (simp add: safe_decimal_def safe_decimal_task_def Decimal_zero Decimal_float_zero)

text \<open>
  Claim C10, amended. On every input other than a float zero the two coercions agree,
  in the value returned and in the exception raised. On a float zero (\<open>0.0\<close> or
  \<open>-0.0\<close>) the service returns \<open>Decimal('0')\<close> and the task module returns the parse of
  the float's text, a different value that is numerically equal to it.
\<close>

theorem safe_decimal_versions_agree_off_float_zero:
  "if is_float_zero v
   then safe_decimal v = Inr (Some (Dec False 0 0))
        \<and> (\<exists>d. safe_decimal_task v = Inr (Some d) \<and> d \<noteq> Dec False 0 0
                \<and> dec_value_eq d (Dec False 0 0))
   else safe_decimal v = safe_decimal_task v"
proof (cases "is_float_zero v")
  case True
  then obtain r where v: "v = PyFloat r" and r: "r = ''0.0'' \<or> r = ''-0.0''"
    by (cases v) auto
  from r show ?thesis
  proof
    assume "r = ''0.0''"
    with v show ?thesis
      by (simp add: safe_decimal_def safe_decimal_task_def Decimal_zero Decimal_float_zero)
  next
    assume "r = ''-0.0''"
    with v show ?thesis
      by (simp add: safe_decimal_def safe_decimal_task_def Decimal_zero Decimal_float_neg_zero)
  qed
next
  case False
  then show ?thesis by (simp add: safe_decimal_def safe_decimal_task_def)
qed

lemma Decimal_one_and_a_half: "Decimal ''1.5'' = Inr (Dec False 15 (- 1))"
  by code_simp

theorem safe_decimal_versions_agree_off_float_zero_witness:
  "safe_decimal (PyStr ''1.5'') = safe_decimal_task (PyStr ''1.5'')
   \<and> safe_decimal (PyStr ''1.5'') = Inr (Some (Dec False 15 (- 1)))
   \<and> safe_decimal (PyStr ''abc'') = safe_decimal_task (PyStr ''abc'')
   \<and> safe_decimal (PyFloat ''-0.0'') = Inr (Some (Dec False 0 0))
   \<and> safe_decimal_task (PyFloat ''-0.0'') = Inr (Some (Dec True 0 (- 1)))"
  using safe_decimal_versions_agree_off_float_zero[of "PyStr ''1.5''"]
    safe_decimal_versions_agree_off_float_zero[of "PyStr ''abc''"]
    safe_decimal_versions_agree_off_float_zero[of "PyFloat ''-0.0''"]
  by (simp add: safe_decimal_task_def Decimal_one_and_a_half Decimal_float_neg_zero)

section \<open>Classification and routing\<close>

text \<open>The classifier of the import service puts the statistic signature first.\<close>

lemma detect_statistic:
  assumes "\<not> df_empty df"
    and "{''sum'', ''average'', ''maximum'', ''minimum''} \<subseteq> set (columns df)"
  shows "detect_dataframe_type df = ''statistic''"
  using assms by (simp add: detect_dataframe_type_def)

lemma import_chunks_statistic:
  assumes "\<not> df_empty df"
    and "{''sum'', ''average'', ''maximum'', ''minimum''} \<subseteq> set (columns df)"
    and "process_statistics_df ext db df user_id = (db', Inr n)"
  shows "import_chunks ext user_id (df # dfs) db st =
           import_chunks ext user_id dfs db'
             (st\<lparr>statistics := statistics st + n, chunks_processed := chunks_processed st + 1\<rparr>)"
  using assms by (simp add: detect_statistic)

text \<open>The dispatch of the task module tests \<open>value\<close> first: a non-empty chunk with a
  \<open>value\<close> column goes to its record path whatever else it carries.\<close>

lemma import_chunks_task_value_first:
  assumes "\<not> df_empty df" and "''value'' \<in> set (columns df)"
  shows "import_chunks_task ext uid (df # dfs) db =
           (case process_records_df_task ext db df uid of
              (db', Inl e) \<Rightarrow> (db', Inl e)
            | (db', Inr u) \<Rightarrow> import_chunks_task ext uid dfs db')"
  using assms by simp

subsection \<open>The sample rows, evaluated\<close>

lemma sample_decimals:
  "safe_decimal (PyStr ''61'') = Inr (Some (Dec False 61 0))"
  "safe_decimal (PyStr ''120'') = Inr (Some (Dec False 120 0))"
  "safe_decimal (PyStr ''60'') = Inr (Some (Dec False 60 0))"
  "safe_decimal (PyStr ''59'') = Inr (Some (Dec False 59 0))"
  "safe_decimal_task (PyStr ''61'') = Inr (Some (Dec False 61 0))"
  "safe_decimal_task (PyStr ''62'') = Inr (Some (Dec False 62 0))"
  by code_simp+

lemma ext_UUID_sample: "ext_UUID sample_externals sample_user = Inr sample_uuid"
  by (simp add: sample_externals_def sample_user_def sample_uuid_def)

lemma ext_to_datetime_sample:
  "ext_to_datetime sample_externals (PyStr ''2024-01-01 10:00:00 +0000'') = Inr (Timestamp 1704103200)"
  "ext_to_datetime sample_externals (PyStr ''yesterday-ish'')
     = Inl (PyExc ValueError ''Unknown datetime string format, unable to parse: yesterday-ish'')"
  "ext_to_datetime sample_externals PyNone = Inr NaT"
  by (simp_all add: sample_externals_def)

lemma ext_model_dates_sample:
  "model_validate sample_externals (Timestamp a) (Timestamp b) (Timestamp c) x = Inr x"
  by (simp add: model_validate_def sample_externals_def)

lemma ext_validate_dates_sample:
  "ext_validate_dates sample_externals (PyStr ''2024-01-01 10:00:00 +0000'')
     (PyStr ''2024-01-01 10:00:00 +0000'') (PyStr ''2024-01-01 10:00:00 +0000'')
     = Inr (Timestamp 1704103200, Timestamp 1704103200, Timestamp 1704103200)"
  "ext_validate_dates sample_externals (PyStr ''yesterday-ish'')
     (PyStr ''2024-01-01 10:00:00 +0000'') (PyStr ''2024-01-01 10:00:00 +0000'')
     = Inl (PyExc ValueError ''3 validation errors for RecordCreate'')"
  by (simp_all add: sample_externals_def)

lemma good_row_record:
  "record_data sample_externals sample_user (good_row ''61'')
     = Inr (sample_record (Some (Dec False 61 0)))"
  by (simp add: record_data_def good_row_def row_get_def exc_bind_def sample_record_def
        ext_UUID_sample ext_to_datetime_sample ext_model_dates_sample sample_decimals)


lemma good_row_record_task:
  "record_data_task sample_externals sample_uuid (good_row ''61'')
     = Inr (sample_record (Some (Dec False 61 0)))"
  by (simp add: record_data_task_def good_row_def row_get_def exc_bind_def sample_record_def
        ext_validate_dates_sample sample_decimals)

lemma bad_date_row_record_task:
  "record_data_task sample_externals sample_uuid bad_date_row
     = Inl (PyExc ValueError ''3 validation errors for RecordCreate'')"
  by (simp add: record_data_task_def bad_date_row_def row_get_def exc_bind_def
        ext_validate_dates_sample sample_decimals)

lemma stat_chunk_shape:
  "\<not> df_empty stat_chunk"
  "{''sum'', ''average'', ''maximum'', ''minimum''} \<subseteq> set (columns stat_chunk)"
  "''value'' \<in> set (columns stat_chunk)"
  by (simp_all add: stat_chunk_def df_empty_def)

lemma stat_chunk_statistics:
  "process_statistics_df sample_externals [] stat_chunk sample_user
     = ([StatisticRow sample_statistic], Inr 1)"
  using stat_chunk_shape(1)
  by (simp add: process_statistics_df_def)
     (simp add: stat_chunk_def stat_data_def row_get_def exc_bind_def sample_statistic_def
        service_create_def ext_UUID_sample ext_to_datetime_sample ext_model_dates_sample sample_decimals)

lemma stat_chunk_records_task:
  "process_records_df_task sample_externals [] stat_chunk sample_uuid
     = ([RecordRow (sample_record (Some (Dec False 61 0)))], Inr ())"
  by (simp add: process_records_df_task_def stat_chunk_def record_data_task_def row_get_def
        exc_bind_def sample_record_def service_create_def ext_validate_dates_sample
        sample_decimals)

lemma stat_chunk_service:
  "import_xml_loop sample_externals [] sample_user ([stat_chunk], None)
     = ([StatisticRow sample_statistic],
        Inr \<lparr>records = 0, workouts = 0, statistics = 1, chunks_processed = 1\<rparr>)"
  by (simp del: import_chunks.simps(2) add: import_xml_loop_def
        import_chunks_statistic[OF stat_chunk_shape(1) stat_chunk_shape(2) stat_chunk_statistics])

lemma stat_chunk_task:
  "import_xml_data sample_externals [] ([stat_chunk], None) sample_user
     = ([RecordRow (sample_record (Some (Dec False 61 0)))], Inr ())"
  by (simp del: import_chunks_task.simps(2) add: import_xml_data_def ext_UUID_sample
        stat_chunk_records_task
        import_chunks_task_value_first[OF stat_chunk_shape(1) stat_chunk_shape(3)])

text \<open>
  Claim C3. A chunk with the four statistic columns is to be classified as a statistic
  and routed to the statistic path even when it carries a \<open>value\<close> column. The
  classifier of the import service does so, and \<open>import_xml\<close> stores the row as a
  statistic; \<open>_import_xml_data\<close> of the task module stores the same row as a record.
\<close>

theorem statistic_chunk_with_value_stored_as_record_by_task_import:
  "detect_dataframe_type stat_chunk = ''statistic''
   \<and> map entity_kind (fst (import_xml_loop sample_externals [] sample_user ([stat_chunk], None)))
       = [''statistic'']
   \<and> map entity_kind (fst (import_xml_data sample_externals [] ([stat_chunk], None) sample_user))
       = [''record'']"
  by (simp add: detect_statistic[OF stat_chunk_shape(1) stat_chunk_shape(2)]
        stat_chunk_service stat_chunk_task entity_kind_def)

section \<open>The persister: string fields\<close>

lemma exc_bind_Inr_iff: "exc_bind m f = Inr y \<longleftrightarrow> (\<exists>x. m = Inr x \<and> f x = Inr y)"
  by (cases m) (simp_all add: exc_bind_def)

lemma record_data_fields:
  assumes "record_data ext uid r = Inr e"
  shows "rc_type e = take 50 (str (row_get r ''type'' (PyStr [])))"
    and "rc_sourceVersion e = take 100 (str (row_get r ''sourceVersion'' (PyStr [])))"
    and "rc_sourceName e = take 100 (str (row_get r ''sourceName'' (PyStr [])))"
    and "rc_deviceId e = take 100 (str (row_get r ''device'' (PyStr [])))"
    and "rc_unit e = take 10 (str (row_get r ''unit'' (PyStr [])))"
  using assms unfolding record_data_def exc_bind_Inr_iff model_validate_def
  by (auto split: option.splits)

lemma workout_data_fields:
  assumes "workout_data ext uid r = Inr e"
  shows "wc_type e = take 50 (str (row_get r ''type'' (PyStr ''Unknown Workout'')))"
    and "wc_durationUnit e = take 10 (str (row_get r ''durationUnit'' (PyStr [])))"
    and "wc_sourceName e = take 100 (str (row_get r ''sourceName'' (PyStr [])))"
  using assms unfolding workout_data_def exc_bind_Inr_iff model_validate_def
  by (auto split: option.splits)

lemma stat_data_fields:
  assumes "stat_data ext uid r = Inr e"
  shows "sc_type e = take 50 (str (row_get r ''type'' (PyStr [])))"
    and "sc_unit e = take 10 (str (row_get r ''unit'' (PyStr [])))"
  using assms unfolding stat_data_def exc_bind_Inr_iff model_validate_def
  by (auto split: option.splits)

text \<open>
  Whether a row is built, and with which exception it is refused, depends on the user
  id, the dates and the numbers only: two rows that agree on these cells are both built
  or both refused, whatever their strings.
\<close>

lemma record_data_frame:
  assumes "row_get r ''startDate'' PyNone = row_get r' ''startDate'' PyNone"
    and "row_get r ''endDate'' PyNone = row_get r' ''endDate'' PyNone"
    and "row_get r ''creationDate'' PyNone = row_get r' ''creationDate'' PyNone"
    and "row_get r ''value'' PyNone = row_get r' ''value'' PyNone"
  shows "isl (record_data ext uid r) = isl (record_data ext uid r')"
  using assms unfolding record_data_def exc_bind_def model_validate_def
  by (auto split: sum.splits option.splits)

lemma workout_data_frame:
  assumes "row_get r ''startDate'' PyNone = row_get r' ''startDate'' PyNone"
    and "row_get r ''endDate'' PyNone = row_get r' ''endDate'' PyNone"
    and "row_get r ''creationDate'' PyNone = row_get r' ''creationDate'' PyNone"
    and "row_get r ''duration'' PyNone = row_get r' ''duration'' PyNone"
  shows "isl (workout_data ext uid r) = isl (workout_data ext uid r')"
  using assms unfolding workout_data_def exc_bind_def model_validate_def
  by (auto split: sum.splits option.splits)

text \<open>Every row the persister writes is the entity built from a row of the chunk.\<close>

lemma process_rows_written:
  "process_rows build rs db n = (db', res) \<Longrightarrow>
     \<exists>new. db' = db @ new \<and> (\<forall>x \<in> set new. \<exists>r \<in> set rs. build r = Inr x)"
proof (induction rs arbitrary: db n)
  case Nil
  then show ?case by simp
next
  case (Cons r rs)
  show ?case
  proof (cases "build r")
    case (Inl e)
    with Cons.prems show ?thesis by simp
  next
    case (Inr x)
    with Cons.prems have "process_rows build rs (db @ [x]) (n + 1) = (db', res)"
      by (simp add: service_create_def)
    from Cons.IH[OF this] obtain new where
      "db' = (db @ [x]) @ new" and "\<forall>y \<in> set new. \<exists>r' \<in> set rs. build r' = Inr y"
      by blast
    with Inr have "db' = db @ (x # new) \<and> (\<forall>y \<in> set (x # new). \<exists>r' \<in> set (r # rs). build r' = Inr y)"
      by auto
    then show ?thesis by blast
  qed
qed

text \<open>
  Claim C6. For every row, the entity the persister builds has each string field cut to
  its maximum length: the field is the first 50 (type), 100 (sourceName, sourceVersion,
  deviceId) or 10 (unit, durationUnit) characters of the cell's text, so it is never
  longer than that. An oversized string is not a reason to refuse a row: whether a
  record or a workout is built depends on the user id and on the date and number cells
  only.
\<close>

theorem string_fields_truncated_not_rejected:
  "(record_data ext uid r = Inr rc \<longrightarrow>
      rc_type rc = take 50 (str (row_get r ''type'' (PyStr [])))
      \<and> rc_sourceVersion rc = take 100 (str (row_get r ''sourceVersion'' (PyStr [])))
      \<and> rc_sourceName rc = take 100 (str (row_get r ''sourceName'' (PyStr [])))
      \<and> rc_deviceId rc = take 100 (str (row_get r ''device'' (PyStr [])))
      \<and> rc_unit rc = take 10 (str (row_get r ''unit'' (PyStr [])))
      \<and> length (rc_type rc) \<le> 50 \<and> length (rc_sourceVersion rc) \<le> 100
      \<and> length (rc_sourceName rc) \<le> 100 \<and> length (rc_deviceId rc) \<le> 100
      \<and> length (rc_unit rc) \<le> 10)
   \<and> (workout_data ext uid r = Inr wc \<longrightarrow>
      wc_type wc = take 50 (str (row_get r ''type'' (PyStr ''Unknown Workout'')))
      \<and> wc_durationUnit wc = take 10 (str (row_get r ''durationUnit'' (PyStr [])))
      \<and> wc_sourceName wc = take 100 (str (row_get r ''sourceName'' (PyStr [])))
      \<and> length (wc_type wc) \<le> 50 \<and> length (wc_durationUnit wc) \<le> 10
      \<and> length (wc_sourceName wc) \<le> 100)
   \<and> (stat_data ext uid r = Inr sc \<longrightarrow>
      sc_type sc = take 50 (str (row_get r ''type'' (PyStr [])))
      \<and> sc_unit sc = take 10 (str (row_get r ''unit'' (PyStr [])))
      \<and> length (sc_type sc) \<le> 50 \<and> length (sc_unit sc) \<le> 10)
   \<and> (row_get r ''startDate'' PyNone = row_get r' ''startDate'' PyNone
        \<and> row_get r ''endDate'' PyNone = row_get r' ''endDate'' PyNone
        \<and> row_get r ''creationDate'' PyNone = row_get r' ''creationDate'' PyNone
        \<and> row_get r ''value'' PyNone = row_get r' ''value'' PyNone
       \<longrightarrow> isl (record_data ext uid r) = isl (record_data ext uid r'))
   \<and> (row_get r ''startDate'' PyNone = row_get r' ''startDate'' PyNone
        \<and> row_get r ''endDate'' PyNone = row_get r' ''endDate'' PyNone
        \<and> row_get r ''creationDate'' PyNone = row_get r' ''creationDate'' PyNone
        \<and> row_get r ''duration'' PyNone = row_get r' ''duration'' PyNone
       \<longrightarrow> isl (workout_data ext uid r) = isl (workout_data ext uid r'))"
proof -
  have "record_data ext uid r = Inr rc \<longrightarrow>
      rc_type rc = take 50 (str (row_get r ''type'' (PyStr [])))
      \<and> rc_sourceVersion rc = take 100 (str (row_get r ''sourceVersion'' (PyStr [])))
      \<and> rc_sourceName rc = take 100 (str (row_get r ''sourceName'' (PyStr [])))
      \<and> rc_deviceId rc = take 100 (str (row_get r ''device'' (PyStr [])))
      \<and> rc_unit rc = take 10 (str (row_get r ''unit'' (PyStr [])))
      \<and> length (rc_type rc) \<le> 50 \<and> length (rc_sourceVersion rc) \<le> 100
      \<and> length (rc_sourceName rc) \<le> 100 \<and> length (rc_deviceId rc) \<le> 100
      \<and> length (rc_unit rc) \<le> 10"
    by (simp add: record_data_fields)
  moreover have "workout_data ext uid r = Inr wc \<longrightarrow>
      wc_type wc = take 50 (str (row_get r ''type'' (PyStr ''Unknown Workout'')))
      \<and> wc_durationUnit wc = take 10 (str (row_get r ''durationUnit'' (PyStr [])))
      \<and> wc_sourceName wc = take 100 (str (row_get r ''sourceName'' (PyStr [])))
      \<and> length (wc_type wc) \<le> 50 \<and> length (wc_durationUnit wc) \<le> 10
      \<and> length (wc_sourceName wc) \<le> 100"
    by (simp add: workout_data_fields)
  moreover have "stat_data ext uid r = Inr sc \<longrightarrow>
      sc_type sc = take 50 (str (row_get r ''type'' (PyStr [])))
      \<and> sc_unit sc = take 10 (str (row_get r ''unit'' (PyStr [])))
      \<and> length (sc_type sc) \<le> 50 \<and> length (sc_unit sc) \<le> 10"
    by (simp add: stat_data_fields)
  ultimately show ?thesis
    using record_data_frame[of r r' ext uid] workout_data_frame[of r r' ext uid] by blast
qed

lemma long_row_record:
  "record_data sample_externals sample_user long_row
     = Inr \<lparr> rc_user_id = sample_uuid,
             rc_type = ''HKQuantityTypeIdentifierHeartRateVariabilitySDNN-e'',
             rc_sourceVersion = [], rc_sourceName = [], rc_deviceId = [],
             rc_startDate = Timestamp 1704103200, rc_endDate = Timestamp 1704103200,
             rc_creationDate = Timestamp 1704103200, rc_unit = ''millisecon'',
             rc_value = Some (Dec False 61 0) \<rparr>"
  by (simp add: record_data_def long_row_def row_get_def exc_bind_def
        ext_UUID_sample ext_to_datetime_sample ext_model_dates_sample sample_decimals)

theorem string_fields_truncated_not_rejected_witness:
  "length (str (row_get long_row ''type'' (PyStr []))) = 57
   \<and> (\<exists>rc. record_data sample_externals sample_user long_row = Inr rc
            \<and> rc_type rc = ''HKQuantityTypeIdentifierHeartRateVariabilitySDNN-e''
            \<and> length (rc_type rc) \<le> 50
            \<and> rc_unit rc = ''millisecon'')
   \<and> isl (record_data sample_externals sample_user long_row)
       = isl (record_data sample_externals sample_user (good_row ''61''))
   \<and> isl (record_data sample_externals sample_user (good_row ''61'')) = False"
proof -
  let ?rc = "\<lparr> rc_user_id = sample_uuid,
             rc_type = ''HKQuantityTypeIdentifierHeartRateVariabilitySDNN-e'',
             rc_sourceVersion = [], rc_sourceName = [], rc_deviceId = [],
             rc_startDate = Timestamp 1704103200, rc_endDate = Timestamp 1704103200,
             rc_creationDate = Timestamp 1704103200, rc_unit = ''millisecon'',
             rc_value = Some (Dec False 61 0) \<rparr>"
  note t = string_fields_truncated_not_rejected[of sample_externals sample_user long_row ?rc
             _ _ "good_row ''61''"]
  have len: "length (str (row_get long_row ''type'' (PyStr []))) = 57"
    by (simp add: long_row_def row_get_def)
  have same: "row_get long_row ''startDate'' PyNone = row_get (good_row ''61'') ''startDate'' PyNone"
    "row_get long_row ''endDate'' PyNone = row_get (good_row ''61'') ''endDate'' PyNone"
    "row_get long_row ''creationDate'' PyNone = row_get (good_row ''61'') ''creationDate'' PyNone"
    "row_get long_row ''value'' PyNone = row_get (good_row ''61'') ''value'' PyNone"
    by (simp_all add: long_row_def good_row_def row_get_def)
  from t long_row_record have "length (rc_type ?rc) \<le> 50" by blast
  moreover from t same
  have "isl (record_data sample_externals sample_user long_row)
          = isl (record_data sample_externals sample_user (good_row ''61''))"
    by blast
  ultimately show ?thesis using long_row_record len good_row_record by simp
qed

section \<open>The chunk counter\<close>

lemma import_chunks_count:
  "import_chunks ext uid dfs db st = (db', Inr st') \<Longrightarrow>
     chunks_processed st' = chunks_processed st + length (filter (\<lambda>df. \<not> df_empty df) dfs)"
proof (induction dfs arbitrary: db st)
  case Nil
  then show ?case by simp
next
  case (Cons df dfs)
  show ?case
  proof (cases "df_empty df")
    case True
    with Cons show ?thesis by simp
  next
    case False
    with Cons.prems obtain d s1 where
      rest: "import_chunks ext uid dfs d (s1\<lparr>chunks_processed := chunks_processed s1 + 1\<rparr>)
               = (db', Inr st')"
      and s1: "chunks_processed s1 = chunks_processed st"
      by (auto simp: Let_def split: if_splits prod.splits sum.splits)
    from Cons.IH[OF rest] s1 False show ?thesis by simp
  qed
qed

lemma import_xml_loop_count:
  assumes "import_xml_loop ext db uid p = (db', Inr st)"
  shows "chunks_processed st = length (filter (\<lambda>df. \<not> df_empty df) (fst p))"
proof -
  from assms have
    "import_chunks ext uid (fst p) db
        \<lparr>records = 0, workouts = 0, statistics = 0, chunks_processed = 0\<rparr> = (db', Inr st)"
    by (auto simp: import_xml_loop_def split: prod.splits sum.splits option.splits)
  from import_chunks_count[OF this] show ?thesis by simp
qed

lemma import_chunks_unknown:
  assumes "\<not> df_empty df" and "detect_dataframe_type df = ''unknown''"
  shows "import_chunks ext uid (df # dfs) db st =
           import_chunks ext uid dfs db (st\<lparr>chunks_processed := chunks_processed st + 1\<rparr>)"
  using assms by simp

text \<open>
  Claim C5. When an import ends without an exception, \<open>chunks_processed\<close> is the number
  of non-empty chunks the parser produced, whatever their classification. An empty
  chunk is skipped: the loop goes on as if it were not there, with every counter and
  the session as they were. A non-empty chunk classified unknown adds one to
  \<open>chunks_processed\<close> and writes nothing.
\<close>

theorem chunks_processed_counts_nonempty_chunks:
  "(import_xml_loop ext db user_id p = (db', Inr st) \<longrightarrow>
      chunks_processed st = length (filter (\<lambda>df. \<not> df_empty df) (fst p)))
   \<and> (df_empty df \<longrightarrow>
        import_chunks ext user_id (df # dfs) db s = import_chunks ext user_id dfs db s)
   \<and> (\<not> df_empty df \<and> detect_dataframe_type df = ''unknown'' \<longrightarrow>
        import_chunks ext user_id (df # dfs) db s =
          import_chunks ext user_id dfs db (s\<lparr>chunks_processed := chunks_processed s + 1\<rparr>))"
  using import_xml_loop_count[of ext db user_id p db' st]
    import_chunks_unknown[of df ext user_id dfs db s]
  by simp

lemma sample_chunk_shapes:
  "df_empty empty_chunk"
  "\<not> df_empty unknown_chunk" "detect_dataframe_type unknown_chunk = ''unknown''"
  "\<not> df_empty one_row_chunk" "detect_dataframe_type one_row_chunk = ''record''"
  "\<not> df_empty five_row_chunk" "detect_dataframe_type five_row_chunk = ''record''"
  by (simp_all add: df_empty_def detect_dataframe_type_def empty_chunk_def unknown_chunk_def
        one_row_chunk_def five_row_chunk_def record_columns_def)

lemma one_row_chunk_records:
  "process_records_df sample_externals db one_row_chunk sample_user
     = (db @ [RecordRow (sample_record (Some (Dec False 61 0)))], Inr 1)"
  using sample_chunk_shapes(4)
  by (simp add: process_records_df_def)
     (simp add: one_row_chunk_def record_columns_def good_row_record service_create_def)

lemma three_chunks_imported:
  "import_xml_loop sample_externals [] sample_user
      ([empty_chunk, unknown_chunk, one_row_chunk], None)
     = ([RecordRow (sample_record (Some (Dec False 61 0)))],
        Inr \<lparr>records = 1, workouts = 0, statistics = 0, chunks_processed = 2\<rparr>)"
  by (simp add: import_xml_loop_def sample_chunk_shapes one_row_chunk_records)

theorem chunks_processed_counts_nonempty_chunks_witness:
  "import_xml_loop sample_externals [] sample_user
      ([empty_chunk, unknown_chunk, one_row_chunk], None)
     = ([RecordRow (sample_record (Some (Dec False 61 0)))],
        Inr \<lparr>records = 1, workouts = 0, statistics = 0, chunks_processed = 2\<rparr>)
   \<and> length (filter (\<lambda>df. \<not> df_empty df) [empty_chunk, unknown_chunk, one_row_chunk]) = 2
   \<and> df_empty empty_chunk
   \<and> import_chunks sample_externals sample_user [empty_chunk, unknown_chunk] []
        \<lparr>records = 0, workouts = 0, statistics = 0, chunks_processed = 0\<rparr>
      = ([], Inr \<lparr>records = 0, workouts = 0, statistics = 0, chunks_processed = 1\<rparr>)"
proof -
  let ?s0 = "\<lparr>records = 0, workouts = 0, statistics = 0, chunks_processed = 0\<rparr>"
  let ?st = "\<lparr>records = 1, workouts = 0, statistics = 0, chunks_processed = 2\<rparr>"
  note c = chunks_processed_counts_nonempty_chunks
  from c[of sample_externals "[]" sample_user
          "([empty_chunk, unknown_chunk, one_row_chunk], None)"
          "[RecordRow (sample_record (Some (Dec False 61 0)))]" ?st]
    three_chunks_imported
  have n: "length (filter (\<lambda>df. \<not> df_empty df) [empty_chunk, unknown_chunk, one_row_chunk]) = 2"
    by simp
  from c[where df = empty_chunk and ext = sample_externals and user_id = sample_user
           and dfs = "[unknown_chunk]" and db = "[]" and s = ?s0]
    sample_chunk_shapes(1)
  have "import_chunks sample_externals sample_user [empty_chunk, unknown_chunk] [] ?s0
          = import_chunks sample_externals sample_user [unknown_chunk] [] ?s0"
    by blast
  also from c[where df = unknown_chunk and ext = sample_externals and user_id = sample_user
                and dfs = "[]" and db = "[]" and s = ?s0]
    sample_chunk_shapes(2,3)
  have "\<dots> = import_chunks sample_externals sample_user [] []
                 (?s0\<lparr>chunks_processed := chunks_processed ?s0 + 1\<rparr>)"
    by blast
  finally have "import_chunks sample_externals sample_user [empty_chunk, unknown_chunk] [] ?s0
     = ([], Inr \<lparr>records = 0, workouts = 0, statistics = 0, chunks_processed = 1\<rparr>)"
    by simp
  with n three_chunks_imported sample_chunk_shapes(1) show ?thesis by blast
qed

section \<open>The orchestration: result and store\<close>

text \<open>
  When the import raises, the task rolls back and reports the failure: the store is as
  before and the status is \<open>failed\<close>. This is the path \<open>process_uploaded_file\<close> takes
  with \<open>_import_xml_data\<close>.
\<close>

lemma run_task_import_raises:
  assumes "env_download_file env = Done"
    and "import_data (effective_user_id u k) = (db, Inl e)"
    and "run_task import_data env w b k u = (res, w')"
  shows "tr_status res = ''failed'' \<and> tr_error res = Some (exc_str e) \<and> store w' = store w"
  using assms
  by (auto simp: run_task_def run_try_def import_and_commit_def failed_result_def Let_def)

text \<open>
  \<open>import_xml\<close> never raises, so in \<open>process_uploaded_xml_file\<close> the status depends
  on the download, the commit, the dump and the upload only.
\<close>

lemma process_uploaded_xml_file_status:
  "tr_status (fst (process_uploaded_xml_file ext env w b k u)) =
     (if env_download_file env = Done \<and> env_commit env = None \<and> env_pg_dump env = Done
         \<and> env_upload_file env = None
      then ''success'' else ''failed'')"
  by (auto simp: process_uploaded_xml_file_def run_task_def run_try_def import_and_commit_def
        create_postgres_dump_def failed_result_def success_result_def Let_def
        split: outcome.splits prod.splits option.splits)

subsection \<open>The sample runs, evaluated\<close>

lemma all_fine_sel:
  "env_temp_dir (all_fine p) = ''/tmp''" "env_download_file (all_fine p) = Done"
  "env_parse_xml (all_fine p) = p" "env_commit (all_fine p) = None"
  "env_pg_dump (all_fine p) = Done" "env_upload_file (all_fine p) = None"
  by (simp_all add: all_fine_def)

lemma sample_key_parts:
  "split_on CHR ''/'' sample_key = [''12345678-1234-1234-1234-123456789012'', ''raw'', ''export.xml'']"
  by (simp add: sample_key_def)

lemma sample_key_facts:
  "effective_user_id None sample_key = sample_user"
  "env_temp_dir env = ''/tmp'' \<Longrightarrow> temp_xml_path env sample_key = ''/tmp/temp_import_export.xml''"
  "env_temp_dir env = ''/tmp'' \<Longrightarrow> dump_path env sample_key = ''/tmp/export_export.sql''"
  "output_key_of sample_user sample_key = ''12345678-1234-1234-1234-123456789012/processed/export.sql''"
  by (simp_all add: effective_user_id_def temp_xml_path_def dump_path_def output_key_of_def
        sample_key_parts truthy_def sample_user_def os_path_join_def)



lemma five_row_chunk_records_task:
  "process_records_df_task sample_externals [] five_row_chunk sample_uuid
     = ([RecordRow (sample_record (Some (Dec False 61 0)))],
        Inl (PyExc PlainException ''Failed to process record: 3 validation errors for RecordCreate''))"
  by (simp add: process_records_df_task_def five_row_chunk_def good_row_record_task
        bad_date_row_record_task service_create_def)

lemma five_row_chunk_import_xml_data:
  "import_xml_data sample_externals [] ([five_row_chunk], None) sample_user
     = ([RecordRow (sample_record (Some (Dec False 61 0)))],
        Inl (PyExc PlainException ''Failed to process record: 3 validation errors for RecordCreate''))"
proof -
  have "''value'' \<in> set (columns five_row_chunk)"
    by (simp add: five_row_chunk_def record_columns_def)
  then show ?thesis
    by (simp add: import_xml_data_def ext_UUID_sample sample_chunk_shapes
          five_row_chunk_records_task)
qed

text \<open>The task of process_upload_task.py on the five-row chunk: failed, nothing stored.\<close>

lemma process_uploaded_file_rolls_back:
  "process_uploaded_file sample_externals (all_fine ([five_row_chunk], None)) empty_world
      ''uploads'' sample_key None
     = (failed_result ''uploads'' sample_key sample_user
          (PyExc PlainException ''Failed to process record: 3 validation errors for RecordCreate''),
        \<lparr> store = [], files = {} \<rparr>)"
  by (auto simp: process_uploaded_file_def run_task_def run_try_def sample_key_facts all_fine_sel
        five_row_chunk_import_xml_data import_and_commit_def cleanup_def truthy_def
        empty_world_def Let_def)




section \<open>The orchestration: temporary files\<close>

lemma os_path_join_nonempty: "b \<noteq> [] \<Longrightarrow> os_path_join a b \<noteq> []"
  by (auto simp: os_path_join_def)

lemma truthy_temp_xml_path: "truthy (Some (temp_xml_path env k))"
  by (simp add: truthy_def temp_xml_path_def os_path_join_nonempty)

lemma truthy_dump_path: "truthy (Some (dump_path env k))"
  by (simp add: truthy_def dump_path_def os_path_join_nonempty)

lemma create_postgres_dump_files:
  "create_postgres_dump env p fs = (fs2, r) \<Longrightarrow> fs2 = fs \<or> fs2 = insert p fs"
  by (auto simp: create_postgres_dump_def split: outcome.splits if_splits)

text \<open>
  When the \<open>try\<close> block is left, either no dump file was named and at most the
  downloaded file was added, or the dump file was named and at most these two were.
\<close>

lemma run_try_files:
  assumes "run_try imp env w b k u = (res, w', df)"
  shows "(df = None \<and> files w' \<subseteq> insert (temp_xml_path env k) (files w))
         \<or> (df = Some (dump_path env k)
            \<and> files w' \<subseteq> insert (dump_path env k) (insert (temp_xml_path env k) (files w)))"
  using assms unfolding run_try_def Let_def
  by (auto split: outcome.splits prod.splits sum.splits option.splits if_splits
           dest!: create_postgres_dump_files)

lemma run_task_cleanup:
  assumes "run_task imp env w b k u = (res, w')"
  shows "temp_xml_path env k \<notin> files w'"
    and "dump_path env k \<notin> files w \<Longrightarrow> dump_path env k \<notin> files w'"
    and "files w' \<subseteq> files w"
proof -
  obtain r w1 df where rt: "run_try imp env w b k u = (r, w1, df)"
    by (cases "run_try imp env w b k u") auto
  with assms have w': "w' = w1\<lparr>files := cleanup (Some (temp_xml_path env k)) df (files w1)\<rparr>"
    by (simp add: run_task_def)
  from run_try_files[OF rt] show "temp_xml_path env k \<notin> files w'"
    by (auto simp: w' cleanup_def Let_def truthy_temp_xml_path truthy_dump_path)
  from run_try_files[OF rt] show "dump_path env k \<notin> files w \<Longrightarrow> dump_path env k \<notin> files w'"
    using truthy_temp_xml_path[of env k] truthy_dump_path[of env k]
    by (auto simp: w' cleanup_def Let_def truthy_def)
  from run_try_files[OF rt] show "files w' \<subseteq> files w"
    using truthy_temp_xml_path[of env k] truthy_dump_path[of env k]
    by (auto simp: w' cleanup_def Let_def truthy_def)
qed

text \<open>
  Claim C7. After every run of \<open>process_uploaded_xml_file\<close>, whatever the download,
  the import, the commit, the dump and the upload did, the downloaded XML file is not in
  the temporary directory, the dump file is not there either (given that no file of that
  name was there before the run), and no file is there that was not there before.
\<close>

theorem temporary_files_removed_on_every_exit:
  assumes "process_uploaded_xml_file ext env w bucket_name object_key user_id = (result, w')"
  shows "temp_xml_path env object_key \<notin> files w'
         \<and> (dump_path env object_key \<notin> files w \<longrightarrow> dump_path env object_key \<notin> files w')
         \<and> files w' \<subseteq> files w"
  using run_task_cleanup[OF assms[unfolded process_uploaded_xml_file_def]] by blast

lemma dump_fails_sel:
  "env_temp_dir (dump_fails p) = ''/tmp''" "env_download_file (dump_fails p) = Done"
  "env_parse_xml (dump_fails p) = p" "env_commit (dump_fails p) = None"
  "env_pg_dump (dump_fails p)
     = Raises (PyExc CalledProcessError ''pg_dump: error: connection to server failed'') True"
  by (simp_all add: dump_fails_def)

lemma three_chunks_import_xml:
  "import_xml sample_externals [] sample_user ([empty_chunk, unknown_chunk, one_row_chunk], None)
     = ([RecordRow (sample_record (Some (Dec False 61 0)))],
        ''XML import successful. Records: 1, Workouts: 0, Statistics: 0'')"
proof -
  have "str_of_nat 1 = ''1''" "str_of_nat 0 = ''0''"
    by code_simp+
  then show ?thesis
    by (simp add: import_xml_def three_chunks_imported)
qed

lemma dump_failure_run:
  "process_uploaded_xml_file sample_externals
      (dump_fails ([empty_chunk, unknown_chunk, one_row_chunk], None)) empty_world
      ''uploads'' sample_key None
     = (failed_result ''uploads'' sample_key sample_user
          (PyExc PlainException ''pg_dump failed: pg_dump: error: connection to server failed''),
        \<lparr> store = [RecordRow (sample_record (Some (Dec False 61 0)))], files = {} \<rparr>)"
  by (auto simp: process_uploaded_xml_file_def run_task_def run_try_def sample_key_facts
        dump_fails_sel three_chunks_import_xml import_and_commit_def create_postgres_dump_def
        cleanup_def truthy_def empty_world_def Let_def)

theorem temporary_files_removed_on_every_exit_witness:
  "tr_status (fst (process_uploaded_xml_file sample_externals
      (dump_fails ([empty_chunk, unknown_chunk, one_row_chunk], None)) empty_world
      ''uploads'' sample_key None)) = ''failed''
   \<and> dump_path (dump_fails ([empty_chunk, unknown_chunk, one_row_chunk], None)) sample_key
        \<notin> files empty_world
   \<and> files (snd (process_uploaded_xml_file sample_externals
      (dump_fails ([empty_chunk, unknown_chunk, one_row_chunk], None)) empty_world
      ''uploads'' sample_key None)) = {}"
proof -
  let ?env = "dump_fails ([empty_chunk, unknown_chunk, one_row_chunk], None)"
  let ?w' = "\<lparr> store = [RecordRow (sample_record (Some (Dec False 61 0)))], files = {} \<rparr>"
  have e: "files empty_world = {}" by (simp add: empty_world_def)
  from temporary_files_removed_on_every_exit[OF dump_failure_run]
  have "files ?w' \<subseteq> files empty_world" by blast
  with e have "files (snd (process_uploaded_xml_file sample_externals ?env empty_world
      ''uploads'' sample_key None)) = {}"
    by (simp add: dump_failure_run)
  moreover have "tr_status (fst (process_uploaded_xml_file sample_externals ?env empty_world
      ''uploads'' sample_key None)) = ''failed''"
    by (simp add: dump_failure_run failed_result_def)
  ultimately show ?thesis using e by simp
qed

section \<open>One poll of the queue\<close>

lemma handle_records_ok:
  "handle_records q recs w n = ((w', n'), None) \<Longrightarrow>
     dispatched w' = dispatched w
        @ concat (map (\<lambda>rcd. case s3_location rcd of Inl e \<Rightarrow> [] | Inr bk \<Rightarrow> [bk])
                   (filter is_s3_record recs))
     \<and> deleted w' = deleted w
     \<and> n' = n + length (filter is_s3_record recs)
     \<and> (\<forall>rcd \<in> set recs. is_s3_record rcd \<longrightarrow> \<not> isl (s3_location rcd))"
proof (induction recs arbitrary: w n)
  case Nil
  then show ?case by simp
next
  case (Cons rcd rs)
  show ?case
  proof (cases "is_s3_record rcd")
    case False
    with Cons.prems have "handle_records q rs w n = ((w', n'), None)"
      by (auto simp: is_s3_record_def split: sum.splits if_splits)
    from Cons.IH[OF this] False show ?thesis by simp
  next
    case True
    with Cons.prems obtain bk where loc: "s3_location rcd = Inr bk"
      and rest: "handle_records q rs (w\<lparr>dispatched := dispatched w @ [bk]\<rparr>) (n + 1)
                   = ((w', n'), None)"
      by (auto simp: is_s3_record_def split: sum.splits if_splits option.splits)
    from Cons.IH[OF rest] True loc show ?thesis by simp
  qed
qed

lemma handle_message_ok:
  assumes "handle_message q m w n = ((w', n'), None)"
  shows "dispatched w' = dispatched w @ message_dispatches m
         \<and> deleted w' = deleted w @ [msg_ReceiptHandle m]
         \<and> n' = n + length (message_dispatches m)"
proof (cases "msg_Body m")
  case (Inl e)
  with assms show ?thesis by (simp add: handle_message_def)
next
  case (Inr b)
  show ?thesis
  proof (cases "py_contains ''Records'' b = Inr True")
    case False
    with assms Inr show ?thesis
      by (auto simp: handle_message_def message_dispatches_def body_records_def
               split: sum.splits option.splits if_splits)
  next
    case True
    with assms Inr obtain recs w1 where
      recs: "exc_bind (py_subscript b ''Records'') py_iter = Inr recs"
      and hr: "handle_records q recs w n = ((w1, n'), None)"
      and w': "w' = w1\<lparr>deleted := deleted w1 @ [msg_ReceiptHandle m]\<rparr>"
      by (auto simp: handle_message_def split: sum.splits option.splits prod.splits)
    from handle_records_ok[OF hr] have
      d: "dispatched w1 = dispatched w
            @ concat (map (\<lambda>rcd. case s3_location rcd of Inl e \<Rightarrow> [] | Inr bk \<Rightarrow> [bk])
                       (filter is_s3_record recs))"
      and del: "deleted w1 = deleted w"
      and n': "n' = n + length (filter is_s3_record recs)"
      and ok: "\<forall>rcd \<in> set recs. is_s3_record rcd \<longrightarrow> \<not> isl (s3_location rcd)"
      by auto
    have br: "body_records m = recs"
      using Inr True recs by (simp add: body_records_def)
    have len: "length (concat (map (\<lambda>rcd. case s3_location rcd of Inl e \<Rightarrow> [] | Inr bk \<Rightarrow> [bk])
                       (filter is_s3_record recs))) = length (filter is_s3_record recs)"
      using ok by (induction recs) (auto split: sum.splits)
    show ?thesis using d del n' len by (simp add: w' message_dispatches_def br)
  qed
qed

lemma handle_messages_ok:
  "handle_messages q ms w n = ((w', n'), None) \<Longrightarrow>
     dispatched w' = dispatched w @ concat (map message_dispatches ms)
     \<and> deleted w' = deleted w @ map msg_ReceiptHandle ms
     \<and> n' = n + length (concat (map message_dispatches ms))"
proof (induction ms arbitrary: w n)
  case Nil
  then show ?case by simp
next
  case (Cons m ms)
  then obtain w1 n1 where hm: "handle_message q m w n = ((w1, n1), None)"
    and rest: "handle_messages q ms w1 n1 = ((w', n'), None)"
    by (auto split: prod.splits option.splits)
  from handle_message_ok[OF hm] Cons.IH[OF rest] show ?case by simp
qed

lemma lacks_s3_record_no_dispatch: "lacks_s3_record m \<Longrightarrow> message_dispatches m = []"
  by (simp add: lacks_s3_record_def message_dispatches_def)

lemma poll_sqs_messages_ok:
  assumes "poll_sqs_messages q (Inr msgs) w = (w', Inr r)"
  shows "deleted w' = deleted w @ map msg_ReceiptHandle msgs
         \<and> dispatched w' = dispatched w @ concat (map message_dispatches msgs)
         \<and> messages_processed r = length (concat (map message_dispatches msgs))"
proof -
  from assms obtain n where
    hm: "handle_messages q msgs (w\<lparr>events := events w @ [Receive]\<rparr>) 0 = ((w', n), None)"
    and r: "r = \<lparr> messages_processed = n, total_messages = length msgs, messages = msgs \<rparr>"
    by (auto simp: poll_sqs_messages_def Let_def split: prod.splits option.splits)
  from handle_messages_ok[OF hm] r show ?thesis by simp
qed

subsection \<open>The sample polls, evaluated\<close>

lemma sample_message_records:
  "body_records plain_text_message = []"
  "body_records test_event_message = []"
  "lacks_s3_record plain_text_message"
  "lacks_s3_record test_event_message"
  by (simp_all add: lacks_s3_record_def body_records_def plain_text_message_def
        test_event_message_def)

lemma handle_plain_text_message:
  "handle_message q plain_text_message w n
     = ((w, n), Some (PyExc JSONDecodeError ''Expecting value: line 1 column 1 (char 0)''))"
  by (simp add: handle_message_def plain_text_message_def)

lemma poison_poll:
  "poll_sqs_messages q (Inr (plain_text_message # ms)) w
     = (w\<lparr>events := events w @ [Receive]\<rparr>,
        Inl (PyExc HTTPException ''Expecting value: line 1 column 1 (char 0)''))"
  by (simp add: poll_sqs_messages_def Let_def handle_plain_text_message)

text \<open>
  Claim C8, as stated: in one poll every received message without a storage-event entry
  is deleted. In a batch of a plain-text message and a test event, the first makes the
  poll raise; the test event has no such entry, was received, and is not deleted.
\<close>

theorem message_after_unparsable_one_not_deleted:
  "lacks_s3_record test_event_message
   \<and> msg_ReceiptHandle test_event_message
       \<notin> set (deleted (fst (poll_sqs_messages quiet_queue
                               (Inr [plain_text_message, test_event_message]) fresh_queue)))"
  by (simp add: sample_message_records poison_poll fresh_queue_def)

text \<open>
  Claim C8, amended. In a poll that returns normally, every received message is deleted,
  in order, whether it dispatched tasks or not; the tasks enqueued are exactly those of
  the storage-event entries of the messages, and \<open>messages_processed\<close> counts them; a
  message without such an entry contributes none. Nothing of this depends on what a
  dispatched task later does: the poll does not wait for it. (A message whose handling
  raises ends the poll with an error; it and the messages after it stay in the queue.)
\<close>

theorem poll_deletes_every_message_on_normal_return:
  assumes "poll_sqs_messages q (Inr msgs) w = (w', Inr r)"
  shows "deleted w' = deleted w @ map msg_ReceiptHandle msgs
         \<and> dispatched w' = dispatched w @ concat (map message_dispatches msgs)
         \<and> messages_processed r = length (concat (map message_dispatches msgs))
         \<and> (\<forall>m \<in> set msgs. lacks_s3_record m \<longrightarrow> message_dispatches m = [])"
  using poll_sqs_messages_ok[OF assms] lacks_s3_record_no_dispatch by blast

lemma upload_message_dispatches:
  "message_dispatches upload_message = [(JStr ''uploads'', JStr ''u1/raw/export.xml'')]"
  by (simp add: message_dispatches_def body_records_def upload_message_def is_s3_record_def
        s3_location_def exc_bind_def)

lemma handle_upload_message:
  "handle_message quiet_queue upload_message w n
     = ((w\<lparr>dispatched := dispatched w @ [(JStr ''uploads'', JStr ''u1/raw/export.xml'')],
           deleted := deleted w @ [''rh-3'']\<rparr>, n + 1), None)"
  by (simp add: handle_message_def upload_message_def s3_location_def exc_bind_def
        quiet_queue_def)

lemma handle_test_event_message:
  "handle_message quiet_queue test_event_message w n
     = ((w\<lparr>deleted := deleted w @ [''rh-2'']\<rparr>, n), None)"
  by (simp add: handle_message_def test_event_message_def quiet_queue_def)

lemma calm_poll:
  "poll_sqs_messages quiet_queue (Inr [upload_message, test_event_message]) fresh_queue
     = (\<lparr> dispatched = [(JStr ''uploads'', JStr ''u1/raw/export.xml'')],
          deleted = [''rh-3'', ''rh-2''], events = [Receive] \<rparr>,
        Inr \<lparr> messages_processed = 1, total_messages = 2,
              messages = [upload_message, test_event_message] \<rparr>)"
  by (simp add: poll_sqs_messages_def Let_def handle_upload_message handle_test_event_message
        fresh_queue_def)

theorem poll_deletes_every_message_on_normal_return_witness:
  "poll_sqs_messages quiet_queue (Inr [upload_message, test_event_message]) fresh_queue
     = (\<lparr> dispatched = [(JStr ''uploads'', JStr ''u1/raw/export.xml'')],
          deleted = [''rh-3'', ''rh-2''], events = [Receive] \<rparr>,
        Inr \<lparr> messages_processed = 1, total_messages = 2,
              messages = [upload_message, test_event_message] \<rparr>)
   \<and> lacks_s3_record test_event_message
   \<and> message_dispatches test_event_message = []
   \<and> concat (map message_dispatches [upload_message, test_event_message])
       = [(JStr ''uploads'', JStr ''u1/raw/export.xml'')]"
proof -
  from poll_deletes_every_message_on_normal_return[OF calm_poll] sample_message_records(4)
  have "message_dispatches test_event_message = []"
    and "[(JStr ''uploads'', JStr ''u1/raw/export.xml'')]
           = dispatched fresh_queue @ concat (map message_dispatches [upload_message, test_event_message])"
    by simp_all
  with calm_poll sample_message_records(4) show ?thesis
    by (simp add: fresh_queue_def)
qed

section \<open>The repeated poll\<close>

lemma handle_records_events:
  "handle_records q recs w n = ((w', n'), r) \<Longrightarrow> events w' = events w"
  by (induction recs arbitrary: w n) (auto split: sum.splits option.splits prod.splits if_splits)

lemma handle_message_events:
  "handle_message q m w n = ((w', n'), r) \<Longrightarrow> events w' = events w"
  by (auto simp: handle_message_def split: sum.splits option.splits prod.splits if_splits
           dest: handle_records_events)

lemma handle_messages_events:
  "handle_messages q ms w n = ((w', n'), r) \<Longrightarrow> events w' = events w"
proof (induction ms arbitrary: w n)
  case Nil
  then show ?case by simp
next
  case (Cons m ms)
  then show ?case
    by (auto split: prod.splits option.splits dest: handle_message_events)
qed

text \<open>A poll issues one receive and nothing else that the event list records.\<close>

lemma poll_sqs_messages_events:
  "poll_sqs_messages q rcv w = (w', r) \<Longrightarrow> events w' = events w @ [Receive]"
  by (auto simp: poll_sqs_messages_def Let_def split: sum.splits prod.splits option.splits
           dest: handle_messages_events)

lemma poll_iterations_bound:
  "poll_count (fst (poll_iterations q receive i k w)) \<le> poll_count w + k"
proof (induction k arbitrary: i w)
  case 0
  then show ?case by simp
next
  case (Suc k)
  obtain w1 r where p: "poll_sqs_messages q (receive i) w = (w1, r)"
    by (cases "poll_sqs_messages q (receive i) w") auto
  from poll_sqs_messages_events[OF p] have ev: "events w1 = events w @ [Receive]" .
  show ?case
  proof (cases r)
    case (Inl e)
    with p ev show ?thesis by (simp add: poll_count_def)
  next
    case (Inr x)
    with p ev Suc.IH[of "Suc i" "w1\<lparr>events := events w1 @ [Sleep 5]\<rparr>"]
    show ?thesis by (simp add: poll_count_def)
  qed
qed

lemma poll_iterations_exact:
  "poll_iterations q receive i k w = (w', None) \<Longrightarrow>
     events w' = events w @ concat (replicate k [Receive, Sleep 5])"
proof (induction k arbitrary: i w)
  case 0
  then show ?case by simp
next
  case (Suc k)
  obtain w1 r where p: "poll_sqs_messages q (receive i) w = (w1, r)"
    by (cases "poll_sqs_messages q (receive i) w") auto
  from poll_sqs_messages_events[OF p] have ev: "events w1 = events w @ [Receive]" .
  from Suc.prems p obtain x where "r = Inr x"
    and rest: "poll_iterations q receive (Suc i) k (w1\<lparr>events := events w1 @ [Sleep 5]\<rparr>)
                 = (w', None)"
    by (auto split: sum.splits)
  from Suc.IH[OF rest] ev show ?case by simp
qed

lemma receives_in_rounds:
  "length (filter (\<lambda>e. e = Receive) (concat (replicate k [Receive, Sleep 5]))) = k"
  by (induction k) simp_all

text \<open>
  Claim C9, as stated: the task performs exactly \<open>expiration_seconds // 5\<close> polls. With
  ten seconds and a queue that keeps delivering a plain-text message, the first poll
  raises and the task ends after one poll, not two.
\<close>

theorem poll_task_stops_at_first_failing_poll:
  "poll_count (fst (poll_sqs_task quiet_queue poison_receive 10 fresh_queue)) = 1
   \<and> snd (poll_sqs_task quiet_queue poison_receive 10 fresh_queue)
       = Some (PyExc HTTPException ''Expecting value: line 1 column 1 (char 0)'')
   \<and> nat (10 div 5) = (2::nat)"
proof -
  have n: "nat ((10::int) div 5) = Suc (Suc 0)" by simp
  show ?thesis
    unfolding poll_sqs_task_def n
    by (simp add: poison_receive_def poison_poll poll_count_def fresh_queue_def)
qed

text \<open>
  Claim C9, amended. The task issues at most \<open>expiration_seconds // 5\<close> polls (none
  when that is negative) and then ends; when it ends without an exception it has done
  exactly that many rounds, each a poll followed by a sleep of five seconds. A poll that
  raises ends the task at once. The bound is a count of rounds: the time the polls
  themselves take is not measured.
\<close>

theorem poll_task_rounds:
  assumes "poll_sqs_task q receive expiration_seconds w = (w', r)"
  shows "poll_count w' \<le> poll_count w + nat (expiration_seconds div 5)
         \<and> (r = None \<longrightarrow>
              events w' = events w
                 @ concat (replicate (nat (expiration_seconds div 5)) [Receive, Sleep 5])
              \<and> poll_count w' = poll_count w + nat (expiration_seconds div 5))"
proof -
  from assms have it:
    "poll_iterations q receive 0 (nat (expiration_seconds div 5)) w = (w', r)"
    by (simp add: poll_sqs_task_def)
  from poll_iterations_bound[of q receive 0 "nat (expiration_seconds div 5)" w] it
  have "poll_count w' \<le> poll_count w + nat (expiration_seconds div 5)" by simp
  moreover have "events w' = events w
                   @ concat (replicate (nat (expiration_seconds div 5)) [Receive, Sleep 5])
                 \<and> poll_count w' = poll_count w + nat (expiration_seconds div 5)"
    if "r = None"
    using poll_iterations_exact[of q receive 0 "nat (expiration_seconds div 5)" w w'] it that
    by (simp add: poll_count_def receives_in_rounds)
  ultimately show ?thesis by blast
qed

lemma empty_poll:
  "poll_sqs_messages q (Inr []) w
     = (w\<lparr>events := events w @ [Receive]\<rparr>,
        Inr \<lparr> messages_processed = 0, total_messages = 0, messages = [] \<rparr>)"
  by (simp add: poll_sqs_messages_def Let_def)

lemma calm_task:
  "poll_sqs_task quiet_queue calm_receive 12 fresh_queue
     = (\<lparr> dispatched = [(JStr ''uploads'', JStr ''u1/raw/export.xml'')],
          deleted = [''rh-3'', ''rh-2''],
          events = [Receive, Sleep 5, Receive, Sleep 5] \<rparr>, None)"
proof -
  have n: "nat ((12::int) div 5) = Suc (Suc 0)" by simp
  show ?thesis
    unfolding poll_sqs_task_def n
    by (simp add: calm_receive_def calm_poll empty_poll)
qed

theorem poll_task_rounds_witness:
  "poll_sqs_task quiet_queue calm_receive 12 fresh_queue
     = (\<lparr> dispatched = [(JStr ''uploads'', JStr ''u1/raw/export.xml'')],
          deleted = [''rh-3'', ''rh-2''],
          events = [Receive, Sleep 5, Receive, Sleep 5] \<rparr>, None)
   \<and> nat (12 div 5) = (2::nat)
   \<and> poll_count (fst (poll_sqs_task quiet_queue calm_receive 12 fresh_queue)) = 2"
proof -
  have n: "nat ((12::int) div 5) = 2" by simp
  from poll_task_rounds[OF calm_task]
  have "poll_count \<lparr> dispatched = [(JStr ''uploads'', JStr ''u1/raw/export.xml'')],
          deleted = [''rh-3'', ''rh-2''],
          events = [Receive, Sleep 5, Receive, Sleep 5] \<rparr>
        = poll_count fresh_queue + nat (12 div 5)"
    by blast
  with n calm_task show ?thesis
    by (simp add: poll_count_def fresh_queue_def)
qed

end
